theory Spec2Isabelle
  imports Main "HOL-Library.AList"
begin

section \<open>Text\<close>

text \<open>
  Python's \<open>str\<close> is modelled by \<^typ>\<open>string\<close>: lists of 8-bit characters, read as the
  Latin-1 range of Unicode. The character classes and case mappings below are those of
  Python 3 on that range.
\<close>

definition ascii_upper :: string where
  "ascii_upper = ''ABCDEFGHIJKLMNOPQRSTUVWXYZ''"

definition ascii_lower :: string where
  "ascii_lower = ''abcdefghijklmnopqrstuvwxyz''"

definition latin_upper :: string where
  "latin_upper =
     [CHR 0xC0, CHR 0xC1, CHR 0xC2, CHR 0xC3, CHR 0xC4, CHR 0xC5, CHR 0xC6, CHR 0xC7,
      CHR 0xC8, CHR 0xC9, CHR 0xCA, CHR 0xCB, CHR 0xCC, CHR 0xCD, CHR 0xCE, CHR 0xCF,
      CHR 0xD0, CHR 0xD1, CHR 0xD2, CHR 0xD3, CHR 0xD4, CHR 0xD5, CHR 0xD6,
      CHR 0xD8, CHR 0xD9, CHR 0xDA, CHR 0xDB, CHR 0xDC, CHR 0xDD, CHR 0xDE]"

definition latin_lower :: string where
  "latin_lower =
     [CHR 0xE0, CHR 0xE1, CHR 0xE2, CHR 0xE3, CHR 0xE4, CHR 0xE5, CHR 0xE6, CHR 0xE7,
      CHR 0xE8, CHR 0xE9, CHR 0xEA, CHR 0xEB, CHR 0xEC, CHR 0xED, CHR 0xEE, CHR 0xEF,
      CHR 0xF0, CHR 0xF1, CHR 0xF2, CHR 0xF3, CHR 0xF4, CHR 0xF5, CHR 0xF6,
      CHR 0xF8, CHR 0xF9, CHR 0xFA, CHR 0xFB, CHR 0xFC, CHR 0xFD, CHR 0xFE]"

text \<open>\<open>str.lower()\<close>: character by character.\<close>

definition lower_char :: "char \<Rightarrow> char" where
  "lower_char c =
     (case map_of (zip (ascii_upper @ latin_upper) (ascii_lower @ latin_lower)) c of
        Some d \<Rightarrow> d
      | None \<Rightarrow> c)"

definition lower :: "string \<Rightarrow> string" where
  "lower s = map lower_char s"

text \<open>
  \<open>str.upper()\<close>. The sharp s (0xDF) becomes \<open>SS\<close>. The upper-case forms of the micro sign
  (0xB5) and of y with diaeresis (0xFF) lie outside Latin-1; the model leaves these two
  characters as they are.
\<close>

definition upper_char :: "char \<Rightarrow> string" where
  "upper_char c =
     (if c = CHR 0xDF then ''SS''
      else case map_of (zip (ascii_lower @ latin_lower) (ascii_upper @ latin_upper)) c of
        Some d \<Rightarrow> [d]
      | None \<Rightarrow> [c])"

definition upper :: "string \<Rightarrow> string" where
  "upper s = concat (map upper_char s)"

text \<open>The test \<open>k in s\<close> on strings: \<open>k\<close> occurs in \<open>s\<close> as a contiguous block.\<close>

fun str_in :: "string \<Rightarrow> string \<Rightarrow> bool" where
  "str_in k [] = (k = [])"
| "str_in k (c # cs) = (take (length k) (c # cs) = k \<or> str_in k cs)"

section \<open>Exceptions and effects\<close>

text \<open>
  Every \<open>raise\<close> of the source and every failure of an external call is a value of
  \<open>exn\<close>. All of them are subclasses of Python's \<open>Exception\<close>, which is what the
  handlers of the source catch. \<open>External\<close> stands for whatever a vendor API, the tool
  session or the transport raises, with its message.
\<close>

datatype exn =
    ValueError string
  | RuntimeError string
  | TypeError
  | AttributeError
  | KeyError
  | IndexError
  | JSONDecodeError
  | RecursionError
  | EOFError
  | External string

text \<open>
  A computation runs in a state \<open>'s\<close> (the objects of the program together with the
  outside world: the vendor endpoints and the tool server) and either raises or returns.
\<close>

type_synonym ('a, 's) comp = "'s \<Rightarrow> (exn + 'a) \<times> 's"

definition returnE :: "'a \<Rightarrow> ('a, 's) comp" where
  "returnE x = (\<lambda>s. (Inr x, s))"

definition raiseE :: "exn \<Rightarrow> ('a, 's) comp" where
  "raiseE e = (\<lambda>s. (Inl e, s))"

definition bindE :: "('a, 's) comp \<Rightarrow> ('a \<Rightarrow> ('b, 's) comp) \<Rightarrow> ('b, 's) comp" where
  "bindE m f = (\<lambda>s. case m s of (Inl e, s') \<Rightarrow> (Inl e, s') | (Inr x, s') \<Rightarrow> f x s')"

text \<open>\<open>try: m except Exception as e: h e\<close>.\<close>

definition tryE :: "('a, 's) comp \<Rightarrow> (exn \<Rightarrow> ('a, 's) comp) \<Rightarrow> ('a, 's) comp" where
  "tryE m h = (\<lambda>s. case m s of (Inl e, s') \<Rightarrow> h e s' | (Inr x, s') \<Rightarrow> (Inr x, s'))"

section \<open>Messages\<close>

text \<open>
  A message is a dictionary with the keys \<open>role\<close> and \<open>content\<close>; the assistant message
  that the OpenAI adapter appends also has the key \<open>tool_calls\<close>. The content is a string,
  \<open>None\<close>, or a vendor's structured content, which the code never looks into.
\<close>

datatype content = Text string | NoContent | Structured string

record tool_call =
  function_name :: string
  function_arguments :: string

record message =
  role :: string
  content :: content
  tool_calls :: "tool_call list option"

definition msg :: "string \<Rightarrow> string \<Rightarrow> message" where
  "msg r c = \<lparr>role = r, content = Text c, tool_calls = None\<rparr>"

abbreviation (input) squote :: char where "squote \<equiv> CHR 0x27"
abbreviation (input) dquote :: char where "dquote \<equiv> CHR 0x22"
abbreviation (input) backslash :: char where "backslash \<equiv> CHR 0x5C"
abbreviation (input) newline :: char where "newline \<equiv> CHR 0x0A"

text \<open>\<open>sep.join(xs)\<close> on a list of strings.\<close>

fun join :: "string \<Rightarrow> string list \<Rightarrow> string" where
  "join sep [] = []"
| "join sep [x] = x"
| "join sep (x # y # ys) = x @ sep @ join sep (y # ys)"

text \<open>\<open>strip_prefix p s\<close>: what follows \<open>p\<close> in \<open>s\<close>, when \<open>s\<close> starts with \<open>p\<close>.\<close>

fun strip_prefix :: "string \<Rightarrow> string \<Rightarrow> string option" where
  "strip_prefix [] s = Some s"
| "strip_prefix (p # ps) [] = None"
| "strip_prefix (p # ps) (c # cs) = (if p = c then strip_prefix ps cs else None)"

definition is_digit :: "char \<Rightarrow> bool" where
  "is_digit c = (c \<in> set ''0123456789'')"

text \<open>
  The class \<open>\w\<close> of Python's regular expressions on strings: letters, digits and
  numeric characters of Latin-1, and the underscore.
\<close>

definition is_word_char :: "char \<Rightarrow> bool" where
  "is_word_char c =
     (c \<in> set ascii_lower \<or> c \<in> set ascii_upper \<or> is_digit c \<or> c = CHR ''_'' \<or>
      c \<in> set latin_lower \<or> c \<in> set latin_upper \<or>
      c \<in> set [CHR 0xAA, CHR 0xB2, CHR 0xB3, CHR 0xB5, CHR 0xB9, CHR 0xBA,
                CHR 0xBC, CHR 0xBD, CHR 0xBE, CHR 0xDF, CHR 0xFF])"

text \<open>
  \<open>str.isprintable()\<close> on one character: in Latin-1 everything but the control
  characters, the delete character, the no-break space and the soft hyphen.
\<close>

definition is_printable :: "char \<Rightarrow> bool" where
  "is_printable c =
     (let n = (of_char c :: nat) in (32 \<le> n \<and> n \<le> 126) \<or> (161 \<le> n \<and> n \<noteq> 173))"

section \<open>JSON values and tool descriptors\<close>

text \<open>
  The values that \<open>json.loads\<close> returns and that tool schemas and tool arguments are made
  of. A dictionary is an association list in insertion order whose keys are distinct;
  \<open>d[k] = v\<close> is \<^const>\<open>AList.update\<close> and \<open>d.get(k)\<close> is \<^const>\<open>map_of\<close>. A float is
  kept as the text of its literal and is never computed with.
\<close>

datatype json =
    JNull
  | JBool bool
  | JInt int
  | JFloat string
  | JStr string
  | JArr "json list"
  | JObj "(string \<times> json) list"

text \<open>
  A tool descriptor, as \<open>MCPClient.process_query\<close> builds it: a dictionary with the keys
  \<open>name\<close>, \<open>description\<close> and \<open>input_schema\<close>, the last one a dictionary (empty when the
  server gives no schema).
\<close>

record tool =
  name :: string
  description :: "string option"
  input_schema :: "(string \<times> json) list"

section \<open>Displaying values\<close>

text \<open>
  \<open>repr\<close> of a string: in single quotes, or in double quotes when the string has a single
  quote and no double quote; the quote character and the backslash are escaped, tab, line
  feed and carriage return are written \<open>\t\<close>, \<open>\n\<close>, \<open>\r\<close>, and every other character that
  is not printable is written \<open>\xNN\<close>.
\<close>

definition hex2 :: "char \<Rightarrow> string" where
  "hex2 c =
     (let n = (of_char c :: nat)
      in [''0123456789abcdef'' ! (n div 16), ''0123456789abcdef'' ! (n mod 16)])"

definition repr_char :: "char \<Rightarrow> char \<Rightarrow> string" where
  "repr_char quote c =
     (if c = quote \<or> c = backslash then [backslash, c]
      else if c = CHR 0x09 then [backslash, CHR ''t'']
      else if c = newline then [backslash, CHR ''n'']
      else if c = CHR 0x0D then [backslash, CHR ''r'']
      else if \<not> is_printable c then [backslash, CHR ''x''] @ hex2 c
      else [c])"

definition repr_str :: "string \<Rightarrow> string" where
  "repr_str s =
     (let quote = (if squote \<in> set s \<and> dquote \<notin> set s then dquote else squote)
      in [quote] @ concat (map (repr_char quote) s) @ [quote])"

text \<open>The decimal text of an integer.\<close>

fun str_nat :: "nat \<Rightarrow> string" where
  "str_nat n =
     (if n < 10 then [''0123456789'' ! n]
      else str_nat (n div 10) @ [''0123456789'' ! (n mod 10)])"

declare str_nat.simps [simp del]

definition str_int :: "int \<Rightarrow> string" where
  "str_int i = (if i < 0 then CHR ''-'' # str_nat (nat (- i)) else str_nat (nat i))"

text \<open>
  \<open>repr\<close> of a value; inside a list or a dictionary every part is shown by \<open>repr\<close>. A
  formatted string \<open>f"{v}"\<close> shows \<open>v\<close> by \<open>str\<close>, which differs from \<open>repr\<close> on strings
  only.
\<close>

fun py_repr :: "json \<Rightarrow> string" where
  "py_repr JNull = ''None''"
| "py_repr (JBool b) = (if b then ''True'' else ''False'')"
| "py_repr (JInt i) = str_int i"
| "py_repr (JFloat lit) = lit"
| "py_repr (JStr s) = repr_str s"
| "py_repr (JArr xs) = ''['' @ join '', '' (map py_repr xs) @ '']''"
| "py_repr (JObj d) =
     ''{'' @ join '', '' (map (\<lambda>kv. repr_str (fst kv) @ '': '' @ py_repr (snd kv)) d) @ ''}''"

definition py_str :: "json \<Rightarrow> string" where
  "py_str v = (case v of JStr s \<Rightarrow> s | _ \<Rightarrow> py_repr v)"

section \<open>The Gemini catalog projector (services/gemini.py)\<close>

record property_schema =
  ptype :: string
  pdescription :: "json option"

record parameters =
  type :: string
  properties :: "(string \<times> property_schema) list"
  required :: json

record function_declaration =
  fname :: string
  fdescription :: "string option"
  fparameters :: parameters

definition type_mapping :: "(string \<times> string) list" where
  "type_mapping =
     [(''number'', ''NUMBER''),
      (''integer'', ''INTEGER''),
      (''boolean'', ''BOOLEAN''),
      (''array'', ''ARRAY''),
      (''object'', ''OBJECT'')]"

text \<open>
  \<open>prop_details.get("type", "STRING").upper()\<close>: \<open>get\<close> needs a dictionary and \<open>upper\<close> a
  string; on anything else the attribute lookup raises.
\<close>

definition get_type_upper :: "json \<Rightarrow> exn + string" where
  "get_type_upper prop_details =
     (case prop_details of
        JObj d \<Rightarrow>
          (case map_of d ''type'' of
             None \<Rightarrow> Inr (upper ''STRING'')
           | Some (JStr t) \<Rightarrow> Inr (upper t)
           | Some _ \<Rightarrow> Inl AttributeError)
      | _ \<Rightarrow> Inl AttributeError)"

text \<open>The body of the loop over \<open>schema["properties"].items()\<close>.\<close>

definition convert_property :: "json \<Rightarrow> exn + property_schema" where
  "convert_property prop_details =
     (case get_type_upper prop_details of
        Inl e \<Rightarrow> Inl e
      | Inr prop_type0 \<Rightarrow>
          let prop_type = (case map_of type_mapping (lower prop_type0) of
                             Some v \<Rightarrow> v | None \<Rightarrow> ''STRING'');
              property_schema = \<lparr>ptype = prop_type, pdescription = None\<rparr>;
              property_schema =
                (case prop_details of
                   JObj d \<Rightarrow>
                     (case map_of d ''description'' of
                        Some v \<Rightarrow> property_schema\<lparr>pdescription := Some v\<rparr>
                      | None \<Rightarrow> property_schema)
                 | _ \<Rightarrow> property_schema)
          in Inr property_schema)"

fun convert_properties ::
  "(string \<times> json) list \<Rightarrow> (string \<times> property_schema) list \<Rightarrow>
   exn + (string \<times> property_schema) list"
where
  "convert_properties [] acc = Inr acc"
| "convert_properties ((prop_name, prop_details) # rest) acc =
     (case convert_property prop_details of
        Inl e \<Rightarrow> Inl e
      | Inr property_schema \<Rightarrow>
          convert_properties rest (AList.update prop_name property_schema acc))"

definition convert_tool :: "tool \<Rightarrow> exn + function_declaration" where
  "convert_tool tool =
     (let params = \<lparr>type = ''OBJECT'', properties = [], required = JArr []\<rparr>;
          schema = input_schema tool
      in case (if schema \<noteq> []
               then (case (case map_of schema ''properties'' of
                             None \<Rightarrow> Inr params
                           | Some (JObj props) \<Rightarrow>
                               (case convert_properties props [] of
                                  Inl e \<Rightarrow> Inl e
                                | Inr ps \<Rightarrow> Inr (params\<lparr>properties := ps\<rparr>))
                           | Some _ \<Rightarrow> Inl AttributeError) of
                       Inl e \<Rightarrow> Inl e
                     | Inr params1 \<Rightarrow>
                         (case map_of schema ''required'' of
                            None \<Rightarrow> Inr params1
                          | Some r \<Rightarrow> Inr (params1\<lparr>required := r\<rparr>)))
               else Inr params) of
           Inl e \<Rightarrow> Inl e
         | Inr params2 \<Rightarrow>
             Inr \<lparr>fname = name tool, fdescription = description tool,
                  fparameters = params2\<rparr>)"

fun convert_tools_to_gemini_format :: "tool list \<Rightarrow> exn + function_declaration list" where
  "convert_tools_to_gemini_format [] = Inr []"
| "convert_tools_to_gemini_format (tool # available_tools) =
     (case convert_tool tool of
        Inl e \<Rightarrow> Inl e
      | Inr function_declaration \<Rightarrow>
          (case convert_tools_to_gemini_format available_tools of
             Inl e \<Rightarrow> Inl e
           | Inr gemini_tools \<Rightarrow> Inr (function_declaration # gemini_tools)))"

text \<open>
  The vocabulary of the statement about the projector. A property is well formed when its
  details are a dictionary whose \<open>type\<close> is absent or a string; a schema is well formed when
  its \<open>properties\<close>, if present, are a dictionary of well-formed properties. The vendor
  type of a property is found from its type name with upper-case and lower-case letters
  identified, as the code's \<open>upper()\<close> and \<open>lower()\<close> do.
\<close>

definition prop_ok :: "json \<Rightarrow> bool" where
  "prop_ok prop_details =
     (case prop_details of
        JObj d \<Rightarrow> (case map_of d ''type'' of None \<Rightarrow> True | Some (JStr t) \<Rightarrow> True | Some _ \<Rightarrow> False)
      | _ \<Rightarrow> False)"

definition schema_ok :: "(string \<times> json) list \<Rightarrow> bool" where
  "schema_ok schema =
     (case map_of schema ''properties'' of
        None \<Rightarrow> True
      | Some (JObj props) \<Rightarrow> distinct (map fst props) \<and> list_all (\<lambda>(n, d). prop_ok d) props
      | Some _ \<Rightarrow> False)"

definition vendor_type :: "json \<Rightarrow> string" where
  "vendor_type prop_details =
     (let t = (case prop_details of
                 JObj d \<Rightarrow> (case map_of d ''type'' of Some (JStr t) \<Rightarrow> lower (upper t) | _ \<Rightarrow> ''string'')
               | _ \<Rightarrow> ''string'')
      in if t = ''number'' then ''NUMBER''
         else if t = ''integer'' then ''INTEGER''
         else if t = ''boolean'' then ''BOOLEAN''
         else if t = ''array'' then ''ARRAY''
         else if t = ''object'' then ''OBJECT''
         else ''STRING'')"

definition prop_description :: "json \<Rightarrow> json option" where
  "prop_description prop_details = (case prop_details of JObj d \<Rightarrow> map_of d ''description'' | _ \<Rightarrow> None)"

definition projected :: "tool \<Rightarrow> function_declaration" where
  "projected tool =
     \<lparr>fname = name tool, fdescription = description tool,
      fparameters =
        \<lparr>type = ''OBJECT'',
         properties =
           (case map_of (input_schema tool) ''properties'' of
              Some (JObj props) \<Rightarrow>
                map (\<lambda>(n, d). (n, \<lparr>ptype = vendor_type d, pdescription = prop_description d\<rparr>)) props
            | _ \<Rightarrow> []),
         required =
           (case map_of (input_schema tool) ''required'' of Some r \<Rightarrow> r | None \<Rightarrow> JArr [])\<rparr>\<rparr>"

section \<open>The program state: list objects and the outside world\<close>

text \<open>
  Message lists are mutable objects that the caller and an adapter may share, so they
  live in a store: \<open>lists s r\<close> is the content of the list object at address \<open>r\<close>, and the
  addresses below \<open>next_ref s\<close> are the lists created so far. \<open>outside s\<close> is the state of
  the outside world: the vendors' endpoints, the tool server, the terminal.
\<close>

record 'w state =
  lists :: "nat \<Rightarrow> message list"
  next_ref :: nat
  outside :: 'w

text \<open>\<open>[]\<close> or \<open>xs.copy()\<close>: a new list object.\<close>

definition new_list :: "message list \<Rightarrow> (nat, 'w state) comp" where
  "new_list xs = (\<lambda>s.
     (Inr (next_ref s),
      s\<lparr>lists := (lists s)(next_ref s := xs), next_ref := Suc (next_ref s)\<rparr>))"

definition list_get :: "nat \<Rightarrow> (message list, 'w state) comp" where
  "list_get r = (\<lambda>s. (Inr (lists s r), s))"

text \<open>\<open>xs.extend(ys)\<close> and \<open>xs.append(y)\<close> change the list object in place.\<close>

definition list_extend :: "nat \<Rightarrow> message list \<Rightarrow> (unit, 'w state) comp" where
  "list_extend r ys = (\<lambda>s. (Inr (), s\<lparr>lists := (lists s)(r := lists s r @ ys)\<rparr>))"

definition list_append :: "nat \<Rightarrow> message \<Rightarrow> (unit, 'w state) comp" where
  "list_append r y = list_extend r [y]"

text \<open>A call to the outside world acts on \<open>outside\<close> and on no list object.\<close>

definition call_out :: "('a, 'w) comp \<Rightarrow> ('a, 'w state) comp" where
  "call_out m = (\<lambda>s. case m (outside s) of (r, w') \<Rightarrow> (r, s\<lparr>outside := w'\<rparr>))"

text \<open>
  \<open>previous_messages\<close> is \<open>None\<close> or a list object. \<open>if previous_messages:\<close> holds for a
  list that is not empty; \<open>truthy_messages\<close> returns its content then, and \<open>None\<close>
  otherwise.
\<close>

definition truthy_messages :: "nat option \<Rightarrow> (message list option, 'w state) comp" where
  "truthy_messages previous_messages =
     (case previous_messages of
        None \<Rightarrow> returnE None
      | Some p \<Rightarrow> bindE (list_get p) (\<lambda>xs. returnE (if xs = [] then None else Some xs)))"

section \<open>The provider adapters (services/)\<close>

text \<open>
  \<open>json.loads\<close> belongs to Python's standard library and not to this program: the
  functions that call it take it as their first argument \<open>json_loads\<close>, which gives the
  value read or the exception raised.
\<close>

text \<open>The marker \<open>f"[Tool call: {tool_name} with args {tool_args}]"\<close>.\<close>

definition tool_call_marker :: "string \<Rightarrow> json \<Rightarrow> string" where
  "tool_call_marker tool_name tool_args =
     ''[Tool call: '' @ tool_name @ '' with args '' @ py_str tool_args @ '']''"

subsection \<open>Anthropic\<close>

text \<open>
  The items of \<open>response.content\<close>: a text, a tool use with its name and input, or an item
  of another type. The client is \<open>messages.create(model, messages, tools, max_tokens)\<close>,
  returning \<open>response.content\<close>.
\<close>

datatype content_block = TextBlock string | ToolUseBlock string json | OtherBlock

type_synonym 'w anthropic_client =
  "string \<Rightarrow> message list \<Rightarrow> tool list \<Rightarrow> nat \<Rightarrow> (content_block list, 'w) comp"

fun anthropic_final_text :: "content_block list \<Rightarrow> string list" where
  "anthropic_final_text [] = []"
| "anthropic_final_text (TextBlock text # rest) = text # anthropic_final_text rest"
| "anthropic_final_text (ToolUseBlock tool_name tool_args # rest) =
     tool_call_marker tool_name tool_args # anthropic_final_text rest"
| "anthropic_final_text (OtherBlock # rest) = anthropic_final_text rest"

definition anthropic_process_query ::
  "'w anthropic_client \<Rightarrow> string \<Rightarrow> string \<Rightarrow> tool list \<Rightarrow> nat option \<Rightarrow>
   (string \<times> nat, 'w state) comp"
where
  "anthropic_process_query anthropic model query available_tools previous_messages =
     bindE (new_list []) (\<lambda>messages.
     bindE (truthy_messages previous_messages) (\<lambda>prev.
     bindE (case prev of Some xs \<Rightarrow> list_extend messages xs | None \<Rightarrow> returnE ()) (\<lambda>_.
     bindE (list_append messages (msg ''user'' query)) (\<lambda>_.
     bindE (list_get messages) (\<lambda>sent.
     bindE (call_out (anthropic model sent available_tools 1000)) (\<lambda>response_content.
     returnE (join [newline] (anthropic_final_text response_content), messages)))))))"

subsection \<open>OpenAI\<close>

text \<open>
  A tool in OpenAI's shape, \<open>{"type": "function", "function": {"name", "description",
  "parameters"}}\<close>, and the message of a choice with its \<open>content\<close> and \<open>tool_calls\<close>. The
  client is \<open>chat.completions.create(model, messages, tools, tool_choice="auto")\<close>,
  returning the messages of \<open>response.choices\<close>.
\<close>

datatype openai_tool = FunctionTool string "string option" "(string \<times> json) list"

record response_message =
  message_content :: "string option"
  message_tool_calls :: "tool_call list option"

type_synonym 'w openai_client =
  "string \<Rightarrow> message list \<Rightarrow> openai_tool list \<Rightarrow> (response_message list, 'w) comp"

text \<open>The loop over the tool calls; \<open>json.loads\<close> may raise.\<close>

fun openai_tool_markers ::
  "(string \<Rightarrow> exn + json) \<Rightarrow> tool_call list \<Rightarrow> exn + string list"
where
  "openai_tool_markers json_loads [] = Inr []"
| "openai_tool_markers json_loads (tool_call # rest) =
     (case json_loads (function_arguments tool_call) of
        Inl e \<Rightarrow> Inl e
      | Inr function_args \<Rightarrow>
          (case openai_tool_markers json_loads rest of
             Inl e \<Rightarrow> Inl e
           | Inr ms \<Rightarrow> Inr (tool_call_marker (function_name tool_call) function_args # ms)))"

definition openai_process_query ::
  "(string \<Rightarrow> exn + json) \<Rightarrow> 'w openai_client \<Rightarrow> string \<Rightarrow> string \<Rightarrow> tool list \<Rightarrow> nat option \<Rightarrow>
   (string \<times> nat, 'w state) comp"
where
  "openai_process_query json_loads openai model query available_tools previous_messages =
     (let openai_tools =
            map (\<lambda>tool. FunctionTool (name tool) (description tool) (input_schema tool))
              available_tools
      in
     bindE (new_list []) (\<lambda>messages.
     bindE (truthy_messages previous_messages) (\<lambda>prev.
     bindE (case prev of Some xs \<Rightarrow> list_extend messages xs | None \<Rightarrow> returnE ()) (\<lambda>_.
     bindE (list_append messages (msg ''user'' query)) (\<lambda>_.
     bindE (list_get messages) (\<lambda>sent.
     bindE (call_out (openai model sent openai_tools)) (\<lambda>choices.
     case choices of
       [] \<Rightarrow> raiseE IndexError
     | response_message # _ \<Rightarrow>
         (case message_tool_calls response_message of
            Some (tc # tcs) \<Rightarrow>
              bindE (list_append messages
                       \<lparr>role = ''assistant'',
                        content = (case message_content response_message of
                                     None \<Rightarrow> NoContent | Some c \<Rightarrow> Text c),
                        tool_calls = Some (tc # tcs)\<rparr>) (\<lambda>_.
              case openai_tool_markers json_loads (tc # tcs) of
                Inl e \<Rightarrow> raiseE e
              | Inr markers \<Rightarrow>
                  returnE
                    (join [newline]
                       ((case message_content response_message of
                           None \<Rightarrow> [] | Some c \<Rightarrow> c) # markers),
                     messages))
          | _ \<Rightarrow>
              (case message_content response_message of
                 None \<Rightarrow> raiseE TypeError
               | Some c \<Rightarrow> returnE (join [newline] [c], messages))))))))))"

subsection \<open>Gemini\<close>

text \<open>
  A part of a candidate's content has an optional text and an optional function call;
  the arguments of a function call are a dictionary or \<open>None\<close>. A candidate has no content
  (\<open>None\<close>), or a content whose \<open>parts\<close> are a list or \<open>None\<close>. An entry of the chat history
  is a role with one text part. The client creates a chat
  (\<open>chats.create(model, config, history)\<close>, the config holding the projected tools) and
  sends the query to it (\<open>chat.send_message(query)\<close>, returning \<open>response.candidates\<close>).
\<close>

record function_call =
  call_name :: string
  call_args :: "(string \<times> json) list option"

record part =
  part_text :: "string option"
  part_function_call :: "function_call option"

datatype candidate = Candidate "part list option option"

record 'w gemini_client =
  chats_create :: "string \<Rightarrow> function_declaration list \<Rightarrow> (string \<times> string) list \<Rightarrow> (unit, 'w) comp"
  send_message :: "string \<Rightarrow> (candidate list, 'w) comp"

fun prepare_gemini_chat_history :: "message list \<Rightarrow> (string \<times> string) list" where
  "prepare_gemini_chat_history [] = []"
| "prepare_gemini_chat_history (message # rest) =
     (case content message of
        Text c \<Rightarrow>
          if role message = ''user'' then (''user'', c) # prepare_gemini_chat_history rest
          else if role message = ''assistant''
          then (''model'', c) # prepare_gemini_chat_history rest
          else prepare_gemini_chat_history rest
      | _ \<Rightarrow> prepare_gemini_chat_history rest)"

text \<open>
  \<open>_parse_gemini_function_args\<close>: a dictionary is copied item by item; otherwise the text
  of the arguments (\<open>None\<close>) is given to \<open>json.loads\<close>, and any exception leaves the empty
  dictionary.
\<close>

definition parse_gemini_function_args ::
  "(string \<Rightarrow> exn + json) \<Rightarrow> function_call \<Rightarrow> json"
where
  "parse_gemini_function_args json_loads fc =
     (case call_args fc of
        Some d \<Rightarrow> JObj (fold (\<lambda>kv. AList.update (fst kv) (snd kv)) d [])
      | None \<Rightarrow> (case json_loads ''None'' of Inr v \<Rightarrow> v | Inl e \<Rightarrow> JObj []))"

fun gemini_final_text :: "(string \<Rightarrow> exn + json) \<Rightarrow> part list \<Rightarrow> string list" where
  "gemini_final_text json_loads [] = []"
| "gemini_final_text json_loads (p # rest) =
     (case part_text p of
        Some (c # cs) \<Rightarrow> [c # cs]
      | _ \<Rightarrow> []) @
     (case part_function_call p of
        Some fc \<Rightarrow> [tool_call_marker (call_name fc) (parse_gemini_function_args json_loads fc)]
      | None \<Rightarrow> []) @
     gemini_final_text json_loads rest"

definition gemini_process_query ::
  "(string \<Rightarrow> exn + json) \<Rightarrow> 'w gemini_client \<Rightarrow> string \<Rightarrow> string \<Rightarrow> tool list \<Rightarrow> nat option \<Rightarrow>
   (string \<times> nat, 'w state) comp"
where
  "gemini_process_query json_loads gemini model query available_tools previous_messages =
     (case convert_tools_to_gemini_format available_tools of
        Inl e \<Rightarrow> raiseE e
      | Inr gemini_tools \<Rightarrow>
     bindE (truthy_messages previous_messages) (\<lambda>prev.
     let chat_history = (case prev of
                           Some xs \<Rightarrow> prepare_gemini_chat_history xs
                         | None \<Rightarrow> [])
     in
     bindE (call_out (chats_create gemini model gemini_tools chat_history)) (\<lambda>_.
     bindE (new_list (case prev of Some xs \<Rightarrow> xs | None \<Rightarrow> [])) (\<lambda>messages.
     bindE (list_append messages (msg ''user'' query)) (\<lambda>_.
     bindE (call_out (send_message gemini query)) (\<lambda>candidates.
     case candidates of
       Candidate (Some (Some parts)) # _ \<Rightarrow>
         returnE (join [newline] (gemini_final_text json_loads parts), messages)
     | Candidate (Some None) # _ \<Rightarrow> raiseE TypeError
     | _ \<Rightarrow> returnE (join [newline] [], messages)))))))"

subsection \<open>The service chosen at construction\<close>

datatype 'w llm_service =
    AnthropicService "'w anthropic_client" string
  | OpenAIService "'w openai_client" string
  | GeminiService "'w gemini_client" string

fun service_process_query ::
  "(string \<Rightarrow> exn + json) \<Rightarrow> 'w llm_service \<Rightarrow> string \<Rightarrow> tool list \<Rightarrow> nat option \<Rightarrow>
   (string \<times> nat, 'w state) comp"
where
  "service_process_query json_loads (AnthropicService anthropic model) =
     anthropic_process_query anthropic model"
| "service_process_query json_loads (OpenAIService openai model) =
     openai_process_query json_loads openai model"
| "service_process_query json_loads (GeminiService gemini model) =
     gemini_process_query json_loads gemini model"

section \<open>The database chat agent (03/client_sse_chat_enhanced.py)\<close>

definition database_keywords :: "string list" where
  "database_keywords =
     [''select'', ''find'', ''search'', ''get'', ''show'', ''list'', ''display'', ''view'',
      ''retrieve'',
      ''table'', ''tables'', ''create table'', ''drop table'', ''alter table'',
      ''describe table'',
      ''insert'', ''add'', ''update'', ''modify'', ''delete'', ''remove'', ''change'',
      ''database'', ''db'', ''sql'', ''query'', ''column'', ''columns'', ''row'', ''rows'',
      ''record'', ''records'',
      ''schema'', ''structure'', ''add column'', ''drop column'', ''rename column'']"

definition detect_database_intent :: "string \<Rightarrow> bool" where
  "detect_database_intent message =
     (let message_lower = lower message
      in list_ex (\<lambda>keyword. str_in keyword message_lower) database_keywords)"

text \<open>
  The agent object holds the conversation history; \<open>'w\<close> is the outside world (the
  completion endpoint and the tool server).
\<close>

record 'w agent =
  conversation_history :: "message list"
  world :: 'w

text \<open>An external call acts on the world and leaves the agent's attributes alone.\<close>

definition external :: "('a, 'w) comp \<Rightarrow> ('a, 'w agent) comp" where
  "external m = (\<lambda>a. case m (world a) of (r, w') \<Rightarrow> (r, a\<lparr>world := w'\<rparr>))"

definition default_system_prompt :: string where
  "default_system_prompt =
     ''You are a helpful database assistant with read-only access. You can help with both general conversation '' @
     ''and database operations. Be friendly and conversational while being informative. '' @
     ''IMPORTANT: You have READ-ONLY database access. When the user asks about information or wants to explore data, you must directly run SELECT queries on the database as follows: '' @
     ''First, list existing tables to understand what data is available. '' @
     ''Then, examine table structures to understand the schema. '' @
     ''Finally, execute appropriate SELECT queries to retrieve and analyze the requested information. '' @
     ''You CANNOT store new information, create tables, or modify existing data - only retrieve and analyze existing data. '' @
     ''If users ask you to store or remember information, explain that you currently have read-only access and can only help them explore existing data.''"

text \<open>
  \<open>llm_chat\<close>: the system prompt, the last six entries of the history and the new user
  message go to the completion endpoint
  (\<open>completion\<close> is \<open>client.chat.completions.create(...).choices[0].message.content\<close>).
\<close>

definition llm_chat ::
  "(message list \<Rightarrow> (string, 'w) comp) \<Rightarrow> string \<Rightarrow> string option \<Rightarrow> (string, 'w agent) comp"
where
  "llm_chat completion message system_prompt = (\<lambda>a.
     let sp = (case system_prompt of None \<Rightarrow> default_system_prompt | Some p \<Rightarrow> p);
         h = conversation_history a;
         messages = [msg ''system'' sp] @ drop (length h - 6) h @ [msg ''user'' message]
     in external (completion messages) a)"

text \<open>
  \<open>chat\<close>. The handler of database requests, \<open>handle_database_operation\<close>, is a
  parameter: it talks to the tool server and to the completion endpoint, reads the history
  (through \<open>llm_chat\<close>) and assigns no attribute of the agent, so it is given the history
  and acts on the world.
\<close>

definition chat ::
  "(message list \<Rightarrow> (string, 'w) comp) \<Rightarrow> (string \<Rightarrow> message list \<Rightarrow> (string, 'w) comp) \<Rightarrow>
   string \<Rightarrow> (string, 'w agent) comp"
where
  "chat completion handle_database_operation message =
     bindE (if detect_database_intent message
            then (\<lambda>a. external (handle_database_operation message (conversation_history a)) a)
            else llm_chat completion message None)
       (\<lambda>response a.
          let h1 = conversation_history a @ [msg ''user'' message];
              h2 = h1 @ [msg ''assistant'' response];
              h3 = (if length h2 > 20 then drop (length h2 - 20) h2 else h2)
          in (Inr response, a\<lparr>conversation_history := h3\<rparr>))"

section \<open>The tool-call marker (client.py)\<close>

text \<open>
  The pattern \<open>\[Tool call: ([\w\-]+) with args (.+?)\]\<close>. A match at the start of a text
  is the literal \<open>[Tool call: \<close>, then the longest run of word characters and hyphens,
  which must not be empty (a shorter run would be followed by one of its own characters
  and not by the space of \<open> with args \<close>), then the literal \<open> with args \<close>, then one
  character and as few more as possible up to a closing bracket, none of them a line
  feed, which the dot does not match. \<open>match_at\<close> returns the two groups and the text
  behind the match.
\<close>

definition name_char :: "char \<Rightarrow> bool" where
  "name_char c = (is_word_char c \<or> c = CHR ''-'')"

definition args_char :: "char \<Rightarrow> bool" where
  "args_char c = (c \<noteq> CHR '']'' \<and> c \<noteq> newline)"

definition match_at :: "string \<Rightarrow> (string \<times> string \<times> string) option" where
  "match_at s =
     (case strip_prefix ''[Tool call: '' s of
        None \<Rightarrow> None
      | Some s1 \<Rightarrow>
          (let tool_name = takeWhile name_char s1
           in if tool_name = [] then None
              else case strip_prefix '' with args '' (dropWhile name_char s1) of
                     None \<Rightarrow> None
                   | Some [] \<Rightarrow> None
                   | Some (c # cs) \<Rightarrow>
                       if c = newline then None
                       else (case dropWhile args_char cs of
                               [] \<Rightarrow> None
                             | b # rest \<Rightarrow>
                                 if b = CHR '']''
                                 then Some (tool_name, c # takeWhile args_char cs, rest)
                                 else None)))"

text \<open>
  \<open>findall\<close>: the groups of all matches, from left to right, each search starting behind
  the previous match.
\<close>

function findall :: "string \<Rightarrow> (string \<times> string) list" where
  "findall [] = []"
| "findall (c # cs) =
     (case match_at (c # cs) of
        Some (tool_name, tool_args_str, rest) \<Rightarrow> (tool_name, tool_args_str) # findall rest
      | None \<Rightarrow> findall cs)"
  by pat_completeness auto
termination
proof (relation "measure length")
  show "wf (measure length)" by simp
next
  fix c :: char and cs :: string
  show "(cs, c # cs) \<in> measure length" by simp
next
  fix c :: char and cs x2 tool_name y tool_args_str rest
  assume m: "match_at (c # cs) = Some x2" and x: "(tool_name, y) = x2"
    and y: "(tool_args_str, rest) = y"
  have sp: "strip_prefix p s = Some r \<Longrightarrow> length r + length p = length s" for p s r
    by (induction p s rule: strip_prefix.induct) (auto split: if_splits)
  have dw: "dropWhile P xs = b # r \<Longrightarrow> length r < length xs"
    for P :: "char \<Rightarrow> bool" and xs b r
    by (metis length_dropWhile_le length_Cons less_eq_Suc_le)
  from m x y have "match_at (c # cs) = Some (tool_name, tool_args_str, rest)" by simp
  then obtain s1 c3 cs3 b where
      a: "strip_prefix ''[Tool call: '' (c # cs) = Some s1"
      and b: "strip_prefix '' with args '' (dropWhile name_char s1) = Some (c3 # cs3)"
      and d: "dropWhile args_char cs3 = b # rest"
    by (auto simp: match_at_def Let_def split: option.splits list.splits if_splits)
  from sp [OF a] sp [OF b] dw [OF d] length_dropWhile_le [of name_char s1]
  have "length rest < length (c # cs)" by simp
  then show "(rest, c # cs) \<in> measure length" by simp
qed

section \<open>The client (client.py)\<close>

text \<open>
  The session with the tool server: \<open>list_tools()\<close> returns the server's tools, each with
  its name, description and input schema; \<open>call_tool(name, arguments)\<close> returns a result,
  kept here as the text that a formatted string shows for it.
\<close>

record server_tool =
  st_name :: string
  st_description :: "string option"
  st_inputSchema :: "(string \<times> json) list option"

record 'w client_session =
  list_tools :: "(server_tool list, 'w) comp"
  call_tool :: "string \<Rightarrow> json \<Rightarrow> (string, 'w) comp"

record 'w MCPClient =
  session :: "'w client_session option"
  llm_provider :: string
  llm_service :: "'w llm_service"

text \<open>
  The constructors of the vendors' clients, \<open>Anthropic()\<close>, \<open>AsyncOpenAI()\<close> and
  \<open>genai.Client()\<close>: each gives a client or raises (for want of an API key, say).
\<close>

record 'w sdk =
  Anthropic :: "exn + 'w anthropic_client"
  AsyncOpenAI :: "exn + 'w openai_client"
  genai_Client :: "exn + 'w gemini_client"

definition MCPClient_init :: "'w sdk \<Rightarrow> string \<Rightarrow> exn + 'w MCPClient" where
  "MCPClient_init sdk provider =
     (if provider = ''anthropic'' then
        (case Anthropic sdk of
           Inl e \<Rightarrow> Inl e
         | Inr llm_client \<Rightarrow>
             Inr \<lparr>session = None, llm_provider = provider,
                  llm_service = AnthropicService llm_client ''claude-3-5-sonnet-20241022''\<rparr>)
      else if provider = ''openai'' then
        (case AsyncOpenAI sdk of
           Inl e \<Rightarrow> Inl e
         | Inr llm_client \<Rightarrow>
             Inr \<lparr>session = None, llm_provider = provider,
                  llm_service = OpenAIService llm_client ''gpt-4o''\<rparr>)
      else if provider = ''gemini'' then
        (case genai_Client sdk of
           Inl e \<Rightarrow> Inl e
         | Inr llm_client \<Rightarrow>
             Inr \<lparr>session = None, llm_provider = provider,
                  llm_service = GeminiService llm_client ''gemini-2.0-flash''\<rparr>)
      else Inl (ValueError (''Unsupported LLM provider: '' @ provider @
                  ''. Use '' @ [squote] @ ''anthropic'' @ [squote] @ '', '' @
                  [squote] @ ''openai'' @ [squote] @ '', or '' @
                  [squote] @ ''gemini'' @ [squote] @ ''.'')))"

text \<open>
  The mediator. \<open>tool_args_str.replace("'", '"')\<close>, then \<open>json.loads\<close>, and the empty
  dictionary on any exception.
\<close>

definition replace_quotes :: "string \<Rightarrow> string" where
  "replace_quotes s = map (\<lambda>c. if c = squote then dquote else c) s"

definition parse_tool_args :: "(string \<Rightarrow> exn + json) \<Rightarrow> string \<Rightarrow> json" where
  "parse_tool_args json_loads tool_args_str =
     (case json_loads (replace_quotes tool_args_str) of
        Inr tool_args \<Rightarrow> tool_args
      | Inl e \<Rightarrow> JObj [])"

text \<open>The loop over the matches, carrying \<open>response_text\<close>.\<close>

fun tool_loop ::
  "(string \<Rightarrow> exn + json) \<Rightarrow> 'w client_session \<Rightarrow> (string \<times> string) list \<Rightarrow> string \<Rightarrow> (string, 'w state) comp"
where
  "tool_loop json_loads sess [] response_text = returnE response_text"
| "tool_loop json_loads sess ((tool_name, tool_args_str) # matches) response_text =
     (let tool_args = parse_tool_args json_loads tool_args_str
      in bindE (call_out (call_tool sess tool_name tool_args)) (\<lambda>result.
           tool_loop json_loads sess matches
             (response_text @ [newline] @ ''[tool results: '' @ result @ '']'')))"

text \<open>The descriptor that \<open>process_query\<close> builds from a tool of the server.\<close>

definition tool_descriptor :: "server_tool \<Rightarrow> tool" where
  "tool_descriptor t =
     \<lparr>name = st_name t, description = st_description t,
      input_schema = (case st_inputSchema t of Some d \<Rightarrow> d | None \<Rightarrow> [])\<rparr>"

definition process_query ::
  "(string \<Rightarrow> exn + json) \<Rightarrow> 'w MCPClient \<Rightarrow> string \<Rightarrow> nat option \<Rightarrow> (string \<times> nat, 'w state) comp"
where
  "process_query json_loads self query previous_messages =
     (case session self of
        None \<Rightarrow> raiseE (RuntimeError ''Client session is not initialized.'')
      | Some sess \<Rightarrow>
          bindE (call_out (list_tools sess)) (\<lambda>response_tools.
          let available_tools = map tool_descriptor response_tools
          in
          bindE (service_process_query json_loads (llm_service self) query available_tools
                   previous_messages) (\<lambda>(response_text, messages).
          bindE (tool_loop json_loads sess (findall response_text) response_text) (\<lambda>response_text'.
          returnE (response_text', messages)))))"

section \<open>The interactive loop (interfaces/terminal.py)\<close>

text \<open>
  The terminal: \<open>input\<close> returns a line or raises (\<open>EOFError\<close> at the end of the input);
  \<open>print\<close> shows a banner line, a response, an error, or the notice that the history was
  cleared.
\<close>

datatype printed = Banner string | Response string | Error exn | Cleared

record 'w terminal =
  input :: "(string, 'w) comp"
  print :: "printed \<Rightarrow> 'w \<Rightarrow> 'w"

definition do_print :: "'w terminal \<Rightarrow> printed \<Rightarrow> (unit, 'w state) comp" where
  "do_print term p = (\<lambda>s. (Inr (), s\<lparr>outside := print term p (outside s)\<rparr>))"

text \<open>\<open>str.strip()\<close>: white space is removed at both ends.\<close>

definition is_space :: "char \<Rightarrow> bool" where
  "is_space c =
     (c \<in> set [CHR 0x09, CHR 0x0A, CHR 0x0B, CHR 0x0C, CHR 0x0D, CHR 0x1C, CHR 0x1D,
               CHR 0x1E, CHR 0x1F, CHR 0x20, CHR 0x85, CHR 0xA0])"

definition strip :: "string \<Rightarrow> string" where
  "strip s = rev (dropWhile is_space (rev (dropWhile is_space s)))"

text \<open>
  One pass through the body of \<open>while True\<close>, with \<open>previous_messages\<close> as it stands: the
  result is \<open>None\<close> after \<open>break\<close>, and otherwise the value of \<open>previous_messages\<close> for the
  next pass.
\<close>

definition chat_turn ::
  "'w terminal \<Rightarrow> (string \<Rightarrow> nat option \<Rightarrow> (string \<times> nat, 'w state) comp) \<Rightarrow> nat \<Rightarrow>
   (nat option, 'w state) comp"
where
  "chat_turn term process_query_fn previous_messages =
     tryE
       (bindE (call_out (input term)) (\<lambda>line.
        let query = strip line
        in if lower query = ''quit'' then returnE None
           else if lower query = ''refresh'' then
             bindE (new_list []) (\<lambda>cleared.
             bindE (do_print term Cleared) (\<lambda>_.
             returnE (Some cleared)))
           else
             bindE (process_query_fn query (Some previous_messages)) (\<lambda>(response, messages).
             bindE (do_print term (Response response)) (\<lambda>_.
             returnE (Some messages)))))
       (\<lambda>e. bindE (do_print term (Error e)) (\<lambda>_. returnE (Some previous_messages)))"

text \<open>
  The loop runs until \<open>quit\<close> is read and may run for ever; \<open>None\<close> stands for a run that
  does not end.
\<close>

partial_function (option) chat_loop_from ::
  "'w terminal \<Rightarrow> (string \<Rightarrow> nat option \<Rightarrow> (string \<times> nat, 'w state) comp) \<Rightarrow> nat \<Rightarrow>
   'w state \<Rightarrow> ((exn + unit) \<times> 'w state) option"
where
  "chat_loop_from term process_query_fn previous_messages s =
     (case chat_turn term process_query_fn previous_messages s of
        (Inl e, s') \<Rightarrow> Some (Inl e, s')
      | (Inr None, s') \<Rightarrow> Some (Inr (), s')
      | (Inr (Some messages), s') \<Rightarrow> chat_loop_from term process_query_fn messages s')"

definition chat_loop ::
  "'w terminal \<Rightarrow> 'w MCPClient \<Rightarrow>
   (string \<Rightarrow> nat option \<Rightarrow> (string \<times> nat, 'w state) comp) \<Rightarrow>
   'w state \<Rightarrow> ((exn + unit) \<times> 'w state) option"
where
  "chat_loop term client process_query_fn s =
     (case new_list [] s of
        (Inl e, s1) \<Rightarrow> Some (Inl e, s1)
      | (Inr previous_messages, s1) \<Rightarrow>
          (case bindE (do_print term (Banner ''Type your queries or 'quit' to exit.''))
                 (\<lambda>_. bindE (do_print term
                               (Banner ''Type 'refresh' to clear conversation history.''))
                 (\<lambda>_. do_print term
                         (Banner (''Using '' @ upper (llm_provider client) @
                                  '' as the LLM provider.'')))) s1 of
             (Inl e, s2) \<Rightarrow> Some (Inl e, s2)
           | (Inr _, s2) \<Rightarrow> chat_loop_from term process_query_fn previous_messages s2))"

section \<open>Startup (client.py, \<open>main\<close>)\<close>

text \<open>
  The transport to the tool server: opening an SSE connection to a URL or starting a
  server process with a command and its arguments gives an initialised session; \<open>close\<close>
  releases whatever was opened.
\<close>

record 'w transport =
  sse_client :: "string \<Rightarrow> ('w client_session, 'w) comp"
  stdio_client :: "string \<Rightarrow> string list \<Rightarrow> ('w client_session, 'w) comp"
  close :: "(unit, 'w) comp"

definition ends_with :: "string \<Rightarrow> string \<Rightarrow> bool" where
  "ends_with s suffix = (drop (length s - length suffix) s = suffix)"

definition connect_to_sse_server ::
  "'w transport \<Rightarrow> 'w MCPClient \<Rightarrow> string \<Rightarrow> ('w MCPClient, 'w state) comp"
where
  "connect_to_sse_server tr self server_url =
     bindE (call_out (sse_client tr server_url)) (\<lambda>sess.
     bindE (call_out (list_tools sess)) (\<lambda>tools.
     returnE (self\<lparr>session := Some sess\<rparr>)))"

definition connect_to_stdio_server ::
  "'w transport \<Rightarrow> 'w MCPClient \<Rightarrow> string \<Rightarrow> ('w MCPClient, 'w state) comp"
where
  "connect_to_stdio_server tr self server_script_path =
     (let args = [server_script_path]
      in bindE
           (if take 1 server_script_path = ''@'' \<or> CHR ''/'' \<notin> set server_script_path
            then returnE ''npx''
            else
              (let is_python = ends_with server_script_path ''.py'';
                   is_javascript = ends_with server_script_path ''.js''
               in if \<not> (is_python \<or> is_javascript)
                  then raiseE (ValueError
                         ''Server script must be a .py, .js file or npm package.'')
                  else returnE (if is_python then ''python'' else ''node'')))
           (\<lambda>command.
     bindE (call_out (stdio_client tr command args)) (\<lambda>sess.
     bindE (call_out (list_tools sess)) (\<lambda>tools.
     returnE (self\<lparr>session := Some sess\<rparr>)))))"

definition connect_to_server ::
  "'w transport \<Rightarrow> 'w MCPClient \<Rightarrow> string \<Rightarrow> ('w MCPClient, 'w state) comp"
where
  "connect_to_server tr self server_path_or_url =
     (if take 7 server_path_or_url = ''http://'' \<or> take 8 server_path_or_url = ''https://''
      then connect_to_sse_server tr self server_path_or_url
      else connect_to_stdio_server tr self server_path_or_url)"

text \<open>
  \<open>main\<close> on the command line \<open>argv\<close>. It ends by \<open>sys.exit(1)\<close> after the usage message,
  by an exception, or normally; \<open>None\<close> stands for a run that does not end.
\<close>

datatype outcome = Exit nat | Raised exn | Finished

definition usage :: "string list" where
  "usage =
     [''Usage: python client.py <server_script_path_or_url> [llm_provider]'',
      ''Examples:'',
      ''  - stdio server (npm): python client.py @playwright/mcp@latest'',
      ''  - stdio server (python): python client.py ./weather.py'',
      ''  - SSE server: python client.py http://localhost:3000/mcp'',
      ''  - Specify LLM provider: python client.py ./weather.py openai'',
      ''  - Use Gemini: python client.py ./weather.py gemini'']"

definition main ::
  "(string \<Rightarrow> exn + json) \<Rightarrow> 'w sdk \<Rightarrow> 'w transport \<Rightarrow> 'w terminal \<Rightarrow> string list \<Rightarrow> 'w state \<Rightarrow>
   (outcome \<times> 'w state) option"
where
  "main json_loads sdk tr term argv s =
     (if length argv < 2 then
        Some (Exit 1, fold (\<lambda>line s'. snd (do_print term (Banner line) s')) usage s)
      else
        (let llm_provider =
               (if length argv > 2 \<and>
                   lower (argv ! 2) \<in> set [''anthropic'', ''openai'', ''gemini'']
                then lower (argv ! 2) else ''anthropic'')
         in case MCPClient_init sdk llm_provider of
              Inl e \<Rightarrow> Some (Raised e, s)
            | Inr client \<Rightarrow>
                (case (case connect_to_server tr client (argv ! 1) s of
                         (Inl e, s1) \<Rightarrow> Some (Inl e, s1)
                       | (Inr client', s1) \<Rightarrow>
                           chat_loop term client' (process_query json_loads client') s1) of
                   None \<Rightarrow> None
                 | Some (r, s2) \<Rightarrow>
                     (case bindE (call_out (close tr))
                             (\<lambda>_. do_print term (Banner ''MCP Client Closed!'')) s2 of
                        (Inl e, s3) \<Rightarrow> Some (Raised e, s3)
                      | (Inr _, s3) \<Rightarrow>
                          Some (case r of Inl e \<Rightarrow> Raised e | Inr _ \<Rightarrow> Finished, s3)))))"

section \<open>A reference for \<open>json.loads\<close>\<close>

text \<open>
  What the decoder of Python's standard library does on a text, as far as it is described
  here: \<open>Some (Inr v)\<close> when it returns \<open>v\<close>, \<open>Some (Inl e)\<close> when it raises \<open>e\<close>, and \<open>None\<close>
  where this description is silent. It is silent on a text in which the decoder comes
  upon a float (a number with a fraction or an exponent, \<open>NaN\<close>, \<open>Infinity\<close>, \<open>-Infinity\<close>),
  an integer of more than 4300 digits (the limit of the newer interpreters), an escape
  \<open>\uXXXX\<close> above \<open>00ff\<close> (a character that Latin-1 does not have), or an object or array
  more than \<open>max_nesting\<close> deep (the interpreter gives up at a depth that depends on its
  stack). Every syntax error is a \<open>JSONDecodeError\<close>.
\<close>

definition is_ws :: "char \<Rightarrow> bool" where
  "is_ws c = (c = CHR '' '' \<or> c = CHR 0x09 \<or> c = newline \<or> c = CHR 0x0D)"

definition skip_ws :: "string \<Rightarrow> string" where
  "skip_ws s = dropWhile is_ws s"

definition hex_val :: "char \<Rightarrow> nat option" where
  "hex_val c =
     map_of (zip ''0123456789abcdef'' [0 ..< 16] @ zip ''ABCDEF'' [10 ..< 16]) c"

text \<open>The code point of \<open>\uXXXX\<close>, when the four characters are hexadecimal digits.\<close>

definition decode_u :: "char \<Rightarrow> char \<Rightarrow> char \<Rightarrow> char \<Rightarrow> nat option" where
  "decode_u h1 h2 h3 h4 =
     (case (hex_val h1, hex_val h2, hex_val h3, hex_val h4) of
        (Some a, Some b, Some c, Some d) \<Rightarrow> Some (4096 * a + 256 * b + 16 * c + d)
      | _ \<Rightarrow> None)"

definition escapes :: "(char \<times> char) list" where
  "escapes =
     [(dquote, dquote), (backslash, backslash), (CHR ''/'', CHR ''/''),
      (CHR ''b'', CHR 0x08), (CHR ''f'', CHR 0x0C), (CHR ''n'', newline),
      (CHR ''r'', CHR 0x0D), (CHR ''t'', CHR 0x09)]"

text \<open>
  \<open>scanstring\<close> reads a string from behind its opening quote and returns it with the text
  behind the closing quote. A control character in the string is an error.
\<close>

fun scanstring :: "string \<Rightarrow> (exn + string \<times> string) option" where
  "scanstring [] = Some (Inl JSONDecodeError)"
| "scanstring (c # cs) =
     (if c = dquote then Some (Inr ([], cs))
      else if c = backslash then
        (case cs of
           [] \<Rightarrow> Some (Inl JSONDecodeError)
         | e # es \<Rightarrow>
             if e = CHR ''u'' then
               (case es of
                  h1 # h2 # h3 # h4 # rest \<Rightarrow>
                    (case decode_u h1 h2 h3 h4 of
                       None \<Rightarrow> Some (Inl JSONDecodeError)
                     | Some code \<Rightarrow>
                         if 256 \<le> code then None
                         else
                           (case scanstring rest of
                              None \<Rightarrow> None
                            | Some (Inl err) \<Rightarrow> Some (Inl err)
                            | Some (Inr (str, rest')) \<Rightarrow> Some (Inr (char_of code # str, rest'))))
                | _ \<Rightarrow> Some (Inl JSONDecodeError))
             else
               (case map_of escapes e of
                  None \<Rightarrow> Some (Inl JSONDecodeError)
                | Some ch \<Rightarrow>
                    (case scanstring es of
                       None \<Rightarrow> None
                     | Some (Inl err) \<Rightarrow> Some (Inl err)
                     | Some (Inr (str, rest')) \<Rightarrow> Some (Inr (ch # str, rest')))))
      else if (of_char c :: nat) < 32 then Some (Inl JSONDecodeError)
      else
        (case scanstring cs of
           None \<Rightarrow> None
         | Some (Inl err) \<Rightarrow> Some (Inl err)
         | Some (Inr (str, rest')) \<Rightarrow> Some (Inr (c # str, rest'))))"

text \<open>The value of a sequence of decimal digits.\<close>

definition digits_val :: "string \<Rightarrow> nat" where
  "digits_val ds = foldl (\<lambda>acc d. 10 * acc + (of_char d - 48)) 0 ds"

text \<open>
  A number: an optional minus sign, then \<open>0\<close> or a digit from 1 to 9 followed by digits;
  then an optional fraction (a point and digits), then an optional exponent (\<open>e\<close> or \<open>E\<close>,
  an optional sign, digits). Without fraction and exponent it is an integer.
\<close>

definition scan_int_part :: "string \<Rightarrow> (string \<times> string) option" where
  "scan_int_part s =
     (case s of
        [] \<Rightarrow> None
      | d # r \<Rightarrow>
          if d = CHR ''0'' then Some ([d], r)
          else if is_digit d then Some (d # takeWhile is_digit r, dropWhile is_digit r)
          else None)"

definition scan_frac :: "string \<Rightarrow> string \<times> string" where
  "scan_frac s =
     (case s of
        p # d # r \<Rightarrow>
          if p = CHR ''.'' \<and> is_digit d
          then (p # d # takeWhile is_digit r, dropWhile is_digit r)
          else ([], s)
      | _ \<Rightarrow> ([], s))"

definition scan_exp :: "string \<Rightarrow> string \<times> string" where
  "scan_exp s =
     (case s of
        e # r \<Rightarrow>
          if e = CHR ''e'' \<or> e = CHR ''E'' then
            (let (sign, r1) =
                   (case r of
                      g # r' \<Rightarrow> if g = CHR ''+'' \<or> g = CHR ''-'' then ([g], r') else ([], r)
                    | [] \<Rightarrow> ([], r))
             in case r1 of
                  d # r2 \<Rightarrow>
                    if is_digit d
                    then (e # sign @ d # takeWhile is_digit r2, dropWhile is_digit r2)
                    else ([], s)
                | [] \<Rightarrow> ([], s))
          else ([], s)
      | [] \<Rightarrow> ([], s))"

definition max_str_digits :: nat where
  "max_str_digits = 4300"

definition scan_number :: "string \<Rightarrow> (exn + json \<times> string) option" where
  "scan_number s =
     (let (sign, s1) = (case s of
                          c # r \<Rightarrow> if c = CHR ''-'' then ([c], r) else ([], s)
                        | [] \<Rightarrow> ([], s))
      in case scan_int_part s1 of
           None \<Rightarrow> Some (Inl JSONDecodeError)
         | Some (ds, s2) \<Rightarrow>
             (let (frac, s3) = scan_frac s2;
                  (ex, s4) = scan_exp s3
              in if frac \<noteq> [] \<or> ex \<noteq> [] then None
                 else if length ds > max_str_digits then None
                 else Some (Inr (JInt (if sign = [] then int (digits_val ds)
                                       else - int (digits_val ds)), s4))))"

text \<open>
  Values, the members of an object and the elements of an array. The first argument
  bounds the number of nested calls, and the second one is the number of objects and
  arrays around the text that is read.
\<close>

definition max_nesting :: nat where
  "max_nesting = 16"

fun json_value :: "nat \<Rightarrow> nat \<Rightarrow> string \<Rightarrow> (exn + json \<times> string) option"
  and json_members ::
    "nat \<Rightarrow> nat \<Rightarrow> (string \<times> json) list \<Rightarrow> string \<Rightarrow>
     (exn + (string \<times> json) list \<times> string) option"
  and json_elements ::
    "nat \<Rightarrow> nat \<Rightarrow> json list \<Rightarrow> string \<Rightarrow> (exn + json list \<times> string) option"
where
  "json_value 0 depth s = None"
| "json_value (Suc n) depth s =
     (case s of
        [] \<Rightarrow> Some (Inl JSONDecodeError)
      | c # cs \<Rightarrow>
          if c = dquote then
            (case scanstring cs of
               None \<Rightarrow> None
             | Some (Inl err) \<Rightarrow> Some (Inl err)
             | Some (Inr (str, rest)) \<Rightarrow> Some (Inr (JStr str, rest)))
          else if c = CHR ''{'' then
            (if max_nesting \<le> depth then None
             else
               (case skip_ws cs of
                  [] \<Rightarrow> Some (Inl JSONDecodeError)
                | c1 # cs1 \<Rightarrow>
                    if c1 = CHR ''}'' then Some (Inr (JObj [], cs1))
                    else (case json_members n (Suc depth) [] (c1 # cs1) of
                            None \<Rightarrow> None
                          | Some (Inl err) \<Rightarrow> Some (Inl err)
                          | Some (Inr (d, rest)) \<Rightarrow> Some (Inr (JObj d, rest)))))
          else if c = CHR ''['' then
            (if max_nesting \<le> depth then None
             else
               (case skip_ws cs of
                  [] \<Rightarrow> Some (Inl JSONDecodeError)
                | c1 # cs1 \<Rightarrow>
                    if c1 = CHR '']'' then Some (Inr (JArr [], cs1))
                    else (case json_elements n (Suc depth) [] (c1 # cs1) of
                            None \<Rightarrow> None
                          | Some (Inl err) \<Rightarrow> Some (Inl err)
                          | Some (Inr (xs, rest)) \<Rightarrow> Some (Inr (JArr xs, rest)))))
          else if take 4 s = ''null'' then Some (Inr (JNull, drop 4 s))
          else if take 4 s = ''true'' then Some (Inr (JBool True, drop 4 s))
          else if take 5 s = ''false'' then Some (Inr (JBool False, drop 5 s))
          else if take 3 s = ''NaN'' then None
          else if take 8 s = ''Infinity'' then None
          else if take 9 s = ''-Infinity'' then None
          else scan_number s)"
| "json_members 0 depth d s = None"
| "json_members (Suc n) depth d s =
     (case s of
        [] \<Rightarrow> Some (Inl JSONDecodeError)
      | c # cs \<Rightarrow>
          if c \<noteq> dquote then Some (Inl JSONDecodeError)
          else
            (case scanstring cs of
               None \<Rightarrow> None
             | Some (Inl err) \<Rightarrow> Some (Inl err)
             | Some (Inr (key, s1)) \<Rightarrow>
                 (case skip_ws s1 of
                    [] \<Rightarrow> Some (Inl JSONDecodeError)
                  | c2 # s2 \<Rightarrow>
                      if c2 \<noteq> CHR '':'' then Some (Inl JSONDecodeError)
                      else
                        (case json_value n depth (skip_ws s2) of
                           None \<Rightarrow> None
                         | Some (Inl err) \<Rightarrow> Some (Inl err)
                         | Some (Inr (v, s3)) \<Rightarrow>
                             (let d' = AList.update key v d
                              in case skip_ws s3 of
                                   [] \<Rightarrow> Some (Inl JSONDecodeError)
                                 | c4 # s4 \<Rightarrow>
                                     if c4 = CHR ''}'' then Some (Inr (d', s4))
                                     else if c4 \<noteq> CHR '','' then Some (Inl JSONDecodeError)
                                     else json_members n depth d' (skip_ws s4))))))"
| "json_elements 0 depth xs s = None"
| "json_elements (Suc n) depth xs s =
     (case json_value n depth s of
        None \<Rightarrow> None
      | Some (Inl err) \<Rightarrow> Some (Inl err)
      | Some (Inr (v, s1)) \<Rightarrow>
          (case skip_ws s1 of
             [] \<Rightarrow> Some (Inl JSONDecodeError)
           | c2 # s2 \<Rightarrow>
               if c2 = CHR '']'' then Some (Inr (xs @ [v], s2))
               else if c2 \<noteq> CHR '','' then Some (Inl JSONDecodeError)
               else json_elements n depth (xs @ [v]) (skip_ws s2)))"

definition json_read :: "string \<Rightarrow> (exn + json) option" where
  "json_read s =
     (case json_value (Suc (length s)) 0 (skip_ws s) of
        None \<Rightarrow> None
      | Some (Inl err) \<Rightarrow> Some (Inl err)
      | Some (Inr (v, rest)) \<Rightarrow>
          if skip_ws rest = [] then Some (Inr v) else Some (Inl JSONDecodeError))"

text \<open>
  A \<open>json.loads\<close> follows the reference when it does what the reference says wherever
  that is not silent. \<open>reference_loads\<close> is the reference taken as a \<open>json.loads\<close>; it is
  left open where the reference is silent.
\<close>

definition follows_reference :: "(string \<Rightarrow> exn + json) \<Rightarrow> bool" where
  "follows_reference json_loads = (\<forall>s r. json_read s = Some r \<longrightarrow> json_loads s = r)"

definition reference_loads :: "string \<Rightarrow> exn + json" where
  "reference_loads s = the (json_read s)"

section \<open>The vocabulary of the statements\<close>

text \<open>
  What the statements about the adapters speak of: the content of the list that
  \<open>previous_messages\<close> refers to (nothing when it is \<open>None\<close>), whether that list is one of
  the lists created so far, the state in which a new list with a given content has been
  created, and the messages that a vendor's protocol adds behind the user message: the
  assistant message of the OpenAI adapter when the reply carries tool calls, and nothing
  otherwise.
\<close>

definition prior_of :: "nat option \<Rightarrow> 'w state \<Rightarrow> message list" where
  "prior_of previous_messages s = (case previous_messages of None \<Rightarrow> [] | Some p \<Rightarrow> lists s p)"

definition allocated :: "nat option \<Rightarrow> 'w state \<Rightarrow> bool" where
  "allocated previous_messages s = (case previous_messages of None \<Rightarrow> True | Some p \<Rightarrow> p < next_ref s)"

definition with_new :: "'w state \<Rightarrow> message list \<Rightarrow> 'w \<Rightarrow> 'w state" where
  "with_new s xs w = s\<lparr>lists := (lists s)(next_ref s := xs), next_ref := Suc (next_ref s), outside := w\<rparr>"

definition turn_extension ::
  "'w llm_service \<Rightarrow> string \<Rightarrow> tool list \<Rightarrow> message list \<Rightarrow> 'w \<Rightarrow> message list" where
  "turn_extension svc query available_tools prior w =
     (case svc of
        OpenAIService openai model \<Rightarrow>
          (case fst (openai model (prior @ [msg ''user'' query])
                       (map (\<lambda>tool. FunctionTool (name tool) (description tool) (input_schema tool))
                          available_tools) w) of
             Inr (response_message # _) \<Rightarrow>
               (case message_tool_calls response_message of
                  Some (tc # tcs) \<Rightarrow>
                    [\<lparr>role = ''assistant'',
                      content = (case message_content response_message of
                                   None \<Rightarrow> NoContent | Some c \<Rightarrow> Text c),
                      tool_calls = Some (tc # tcs)\<rparr>]
                | _ \<Rightarrow> [])
           | _ \<Rightarrow> [])
      | _ \<Rightarrow> [])"

text \<open>
  When an adapter goes through to its \<open>return\<close>: the vendor's calls return, and what they
  return raises nothing in the adapter. For Anthropic the completion returns. For OpenAI
  the completion returns at least one choice, and the first one either carries tool calls
  whose arguments \<open>json.loads\<close> reads, or carries none and has a content. For Gemini the
  tools are projected without an exception, the chat is created, the message is sent, and
  the first candidate, if there is one and it has a content, has parts.
\<close>

definition vendor_replies ::
  "(string \<Rightarrow> exn + json) \<Rightarrow> 'w llm_service \<Rightarrow> string \<Rightarrow> tool list \<Rightarrow> message list \<Rightarrow> 'w \<Rightarrow>
   bool"
where
  "vendor_replies json_loads svc query available_tools prior w =
     (case svc of
        AnthropicService anthropic model \<Rightarrow>
          (case fst (anthropic model (prior @ [msg ''user'' query]) available_tools 1000 w) of
             Inr response_content \<Rightarrow> True
           | Inl e \<Rightarrow> False)
      | OpenAIService openai model \<Rightarrow>
          (case fst (openai model (prior @ [msg ''user'' query])
                       (map (\<lambda>tool. FunctionTool (name tool) (description tool) (input_schema tool))
                          available_tools) w) of
             Inr (response_message # _) \<Rightarrow>
               (case message_tool_calls response_message of
                  Some (tc # tcs) \<Rightarrow>
                    (case openai_tool_markers json_loads (tc # tcs) of
                       Inr markers \<Rightarrow> True
                     | Inl e \<Rightarrow> False)
                | _ \<Rightarrow> message_content response_message \<noteq> None)
           | _ \<Rightarrow> False)
      | GeminiService gemini model \<Rightarrow>
          (case convert_tools_to_gemini_format available_tools of
             Inl e \<Rightarrow> False
           | Inr gemini_tools \<Rightarrow>
               (case chats_create gemini model gemini_tools
                       (prepare_gemini_chat_history prior) w of
                  (Inl e, w1) \<Rightarrow> False
                | (Inr created, w1) \<Rightarrow>
                    (case fst (send_message gemini query w1) of
                       Inl e \<Rightarrow> False
                     | Inr (Candidate (Some None) # _) \<Rightarrow> False
                     | Inr candidates \<Rightarrow> True))))"

text \<open>
  What the statements about the mediator speak of. A session is observed by logging its
  calls: \<open>logged sess\<close> behaves as \<open>sess\<close> and appends to a log, kept beside the outside
  world, the name and the arguments of every \<open>call_tool\<close> with what it returned or raised.
\<close>

type_synonym call_record = "string \<times> json \<times> (exn + string)"

definition logged :: "'w client_session \<Rightarrow> ('w \<times> call_record list) client_session" where
  "logged sess =
     \<lparr>list_tools = (\<lambda>(w, log). case list_tools sess w of (r, w') \<Rightarrow> (r, (w', log))),
      call_tool = (\<lambda>tool_name tool_args (w, log).
         case call_tool sess tool_name tool_args w of
           (r, w') \<Rightarrow> (r, (w', log @ [(tool_name, tool_args, r)])))\<rparr>"

definition call_log :: "('w \<times> call_record list) state \<Rightarrow> call_record list" where
  "call_log s = snd (outside s)"

text \<open>
  The text of a marker with a given name and argument text, and the markers of a list
  occurring in a text one behind the other, in the order of the list.
\<close>

definition marker_text :: "string \<Rightarrow> string \<Rightarrow> string" where
  "marker_text tool_name tool_args_str =
     ''[Tool call: '' @ tool_name @ '' with args '' @ tool_args_str @ '']''"

fun in_order :: "(string \<times> string) list \<Rightarrow> string \<Rightarrow> bool" where
  "in_order [] s = True"
| "in_order ((tool_name, tool_args_str) # ms) s =
     (\<exists>before rest. s = before @ marker_text tool_name tool_args_str @ rest \<and> in_order ms rest)"

text \<open>
  The argument mappings that come through the marker unchanged. A character of a key or
  of a string value is a tab, a line feed, a carriage return, or a printable character
  other than the two quotes and the closing bracket; a value is such a string, or an
  integer of at most 4300 digits; the keys are distinct, as the keys of a dictionary are.
\<close>

definition round_trip_char :: "char \<Rightarrow> bool" where
  "round_trip_char c =
     (c = CHR 0x09 \<or> c = newline \<or> c = CHR 0x0D \<or>
      (is_printable c \<and> c \<noteq> squote \<and> c \<noteq> dquote \<and> c \<noteq> CHR '']''))"

definition round_trip_value :: "json \<Rightarrow> bool" where
  "round_trip_value v =
     (case v of
        JStr s \<Rightarrow> list_all round_trip_char s
      | JInt i \<Rightarrow> \<bar>i\<bar> < 10 ^ max_str_digits
      | _ \<Rightarrow> False)"

definition round_trip_args :: "(string \<times> json) list \<Rightarrow> bool" where
  "round_trip_args d =
     (distinct (map fst d) \<and>
      list_all (\<lambda>(k, v). list_all round_trip_char k \<and> round_trip_value v) d)"

section \<open>Concrete runs\<close>

text \<open>
  A state with one list, vendors' clients with fixed replies, a tool session that
  answers every call, a terminal that reads one fixed line, and two response texts.
\<close>

text \<open>
  A reading of JSON that knows the text of the empty object and rejects every other text;
  the runs below give it the texts \<open>{}\<close> and \<open>{oops}\<close>, on which it does what \<open>json.loads\<close>
  does.
\<close>

definition example_loads :: "string \<Rightarrow> exn + json" where
  "example_loads s = (if s = ''{}'' then Inr (JObj []) else Inl JSONDecodeError)"

definition example_state :: "'w \<Rightarrow> 'w state" where
  "example_state w =
     \<lparr>lists = (\<lambda>a. if a = 0 then [msg ''user'' ''hi'', msg ''assistant'' ''hello''] else []),
      next_ref = 1, outside = w\<rparr>"

definition example_openai :: "'w openai_client" where
  "example_openai =
     (\<lambda>model messages tools.
        returnE [\<lparr>message_content = None,
                  message_tool_calls =
                    Some [\<lparr>function_name = ''list_tables'', function_arguments = ''{}''\<rparr>]\<rparr>])"

definition example_anthropic :: "'w anthropic_client" where
  "example_anthropic =
     (\<lambda>model messages tools max_tokens.
        returnE [TextBlock ''Let me check.'', ToolUseBlock ''list_tables'' (JObj [])])"

definition failing_anthropic :: "'w anthropic_client" where
  "failing_anthropic = (\<lambda>model messages tools max_tokens. raiseE (External ''overloaded''))"

definition example_session :: "'w client_session" where
  "example_session =
     \<lparr>list_tools =
        returnE [\<lparr>st_name = ''list_tables'', st_description = Some ''List the tables'',
                  st_inputSchema = None\<rparr>],
      call_tool = (\<lambda>tool_name tool_args. returnE (''result of '' @ tool_name))\<rparr>"

definition example_terminal :: "string \<Rightarrow> 'w terminal" where
  "example_terminal line = \<lparr>input = returnE line, print = (\<lambda>p w. w)\<rparr>"

definition failing_client :: "'w MCPClient" where
  "failing_client =
     \<lparr>session = Some example_session, llm_provider = ''anthropic'',
      llm_service = AnthropicService failing_anthropic ''claude-3-5-sonnet-20241022''\<rparr>"

definition example_client :: "('w \<times> call_record list) MCPClient" where
  "example_client =
     \<lparr>session = Some (logged example_session), llm_provider = ''anthropic'',
      llm_service = AnthropicService example_anthropic ''claude-3-5-sonnet-20241022''\<rparr>"

text \<open>A client whose adapter replies with a given text, with a logging session.\<close>

definition replying_client :: "string \<Rightarrow> ('w \<times> call_record list) MCPClient" where
  "replying_client reply =
     \<lparr>session = Some (logged example_session), llm_provider = ''anthropic'',
      llm_service =
        AnthropicService (\<lambda>model messages tools max_tokens. returnE [TextBlock reply])
          ''claude-3-5-sonnet-20241022''\<rparr>"

text \<open>
  A client whose adapter is Anthropic's, with a reply that is a text and the use of a
  given tool with given arguments.
\<close>

definition calling_client :: "string \<Rightarrow> json \<Rightarrow> ('w \<times> call_record list) MCPClient" where
  "calling_client tool_name tool_args =
     \<lparr>session = Some (logged example_session), llm_provider = ''anthropic'',
      llm_service =
        AnthropicService
          (\<lambda>model messages tools max_tokens.
             returnE [TextBlock ''Let me check.'', ToolUseBlock tool_name tool_args])
          ''claude-3-5-sonnet-20241022''\<rparr>"


definition ordered_markers :: string where
  "ordered_markers = ''[Tool call: list_tables with args {}] then [Tool call: count-rows with args {}]''"

text \<open>
  For startup: clients for all three vendors, and a transport and a terminal that write
  what they are asked to do into the outside world, which is a list of lines.
\<close>

definition example_gemini :: "'w gemini_client" where
  "example_gemini =
     \<lparr>chats_create = (\<lambda>model tools history. returnE ()),
      send_message = (\<lambda>query. returnE [])\<rparr>"

definition speaking_gemini :: "'w gemini_client" where
  "speaking_gemini =
     \<lparr>chats_create = (\<lambda>model tools history. returnE ()),
      send_message = (\<lambda>query. returnE
        [Candidate (Some (Some
           [\<lparr>part_text = Some ''Two tables.'', part_function_call = None\<rparr>,
            \<lparr>part_text = None,
             part_function_call = Some \<lparr>call_name = ''list_tables'', call_args = Some []\<rparr>\<rparr>]))])\<rparr>"

definition example_sdk :: "'w sdk" where
  "example_sdk =
     \<lparr>Anthropic = Inr example_anthropic, AsyncOpenAI = Inr example_openai,
      genai_Client = Inr example_gemini\<rparr>"

definition tracing_transport :: "string list transport" where
  "tracing_transport =
     \<lparr>sse_client = (\<lambda>url w. (Inr example_session, w @ [''connect to '' @ url])),
      stdio_client = (\<lambda>command args w. (Inr example_session, w @ [''start '' @ command])),
      close = (\<lambda>w. (Inr (), w @ [''close'']))\<rparr>"

definition tracing_terminal :: "string \<Rightarrow> string list terminal" where
  "tracing_terminal line =
     \<lparr>input = returnE line,
      print = (\<lambda>p w. case p of Banner b \<Rightarrow> w @ [b] | _ \<Rightarrow> w)\<rparr>"


section \<open>Transcript eviction\<close>

lemma external_history:
  "external m a = (r, a') \<Longrightarrow> conversation_history a' = conversation_history a"
  by (auto simp: external_def split: prod.splits)

lemma llm_chat_history:
  "llm_chat completion message sp a = (r, a') \<Longrightarrow>
   conversation_history a' = conversation_history a"
  by (auto simp: llm_chat_def Let_def dest: external_history)

lemma last_window:
  "(if 20 < length xs then drop (length xs - 20) xs else xs) = drop (length xs - 20) xs \<and>
   (20 < length xs \<longrightarrow> length (drop (length xs - 20) xs) = 20 \<and>
      (\<forall>i<20. drop (length xs - 20) xs ! i = xs ! (length xs - 20 + i)))"
  by simp

lemma chat_history:
  assumes "chat completion handle_database_operation message a = (r, a')"
  shows "case r of
           Inl e \<Rightarrow> conversation_history a' = conversation_history a
         | Inr response \<Rightarrow>
             conversation_history a' =
               (let h2 = conversation_history a @
                      [msg ''user'' message, msg ''assistant'' response]
                in if 20 < length h2 then drop (length h2 - 20) h2 else h2)"
proof (cases "detect_database_intent message")
  case True
  obtain r1 a1 where s1:
    "external (handle_database_operation message (conversation_history a)) a = (r1, a1)"
    by (cases "external (handle_database_operation message (conversation_history a)) a")
  from external_history [OF s1] have h1: "conversation_history a1 = conversation_history a" .
  from assms True s1 h1 show ?thesis
    by (cases r1) (auto simp: chat_def bindE_def Let_def)
next
  case False
  obtain r1 a1 where s1: "llm_chat completion message None a = (r1, a1)"
    by (cases "llm_chat completion message None a")
  from llm_chat_history [OF s1] have h1: "conversation_history a1 = conversation_history a" .
  from assms False s1 h1 show ?thesis
    by (cases r1) (auto simp: chat_def bindE_def Let_def)
qed

text \<open>
  C7. A chat turn that returns \<open>response\<close> leaves as history the last 20 entries of the old
  history followed by the user message and the assistant message: when that sequence has
  more than 20 entries the new history has exactly 20, which are its last 20 in their order
  and unchanged; otherwise it is the whole sequence. A turn that raises leaves the history
  as it was.
\<close>

theorem transcript_eviction:
  assumes "chat completion handle_database_operation message a = (r, a')"
  shows "case r of
           Inl e \<Rightarrow> conversation_history a' = conversation_history a
         | Inr response \<Rightarrow>
             (let appended = conversation_history a @
                    [msg ''user'' message, msg ''assistant'' response];
                  n = length appended
              in conversation_history a' = drop (n - 20) appended \<and>
                 (20 < n \<longrightarrow> length (conversation_history a') = 20 \<and>
                    (\<forall>i<20. conversation_history a' ! i = appended ! (n - 20 + i))))"
proof (cases r)
  case (Inl e)
  with chat_history [OF assms] show ?thesis by simp
next
  case (Inr response)
  define appended where
    "appended = conversation_history a @ [msg ''user'' message, msg ''assistant'' response]"
  from chat_history [OF assms] Inr
  have "conversation_history a' =
          (if 20 < length appended then drop (length appended - 20) appended else appended)"
    by (simp add: appended_def Let_def)
  with last_window [of appended]
  have "conversation_history a' = drop (length appended - 20) appended \<and>
        (20 < length appended \<longrightarrow> length (conversation_history a') = 20 \<and>
           (\<forall>i<20. conversation_history a' ! i = appended ! (length appended - 20 + i)))"
    by metis
  from this [unfolded appended_def] show ?thesis
    unfolding Inr sum.case Let_def by blast
qed

theorem transcript_eviction_witness:
  "chat (\<lambda>ms. returnE ''hello'') (\<lambda>q h. returnE ''rows'') ''hi''
     \<lparr>conversation_history = replicate 19 (msg ''user'' ''x''), world = ()\<rparr>
   = (Inr ''hello'',
      \<lparr>conversation_history =
         replicate 18 (msg ''user'' ''x'') @ [msg ''user'' ''hi'', msg ''assistant'' ''hello''],
       world = ()\<rparr>)
   \<and> length (replicate 18 (msg ''user'' ''x'') @
        [msg ''user'' ''hi'', msg ''assistant'' ''hello'']) = 20"
proof -
  have run: "chat (\<lambda>ms. returnE ''hello'') (\<lambda>q h. returnE ''rows'') ''hi''
     \<lparr>conversation_history = replicate 19 (msg ''user'' ''x''), world = ()\<rparr>
   = (Inr ''hello'',
      \<lparr>conversation_history =
         replicate 18 (msg ''user'' ''x'') @ [msg ''user'' ''hi'', msg ''assistant'' ''hello''],
       world = ()\<rparr>)"
    by code_simp
  from transcript_eviction [OF run] show ?thesis
    using run by simp
qed

section \<open>The catalog projection\<close>

lemma lower_upper_STRING: "lower (upper ''STRING'') = ''string''"
  by code_simp

lemma type_mapping_lookup:
  "(case map_of type_mapping t of Some v \<Rightarrow> v | None \<Rightarrow> ''STRING'') =
     (if t = ''number'' then ''NUMBER''
         else if t = ''integer'' then ''INTEGER''
         else if t = ''boolean'' then ''BOOLEAN''
         else if t = ''array'' then ''ARRAY''
         else if t = ''object'' then ''OBJECT''
         else ''STRING'')"
  by (simp add: type_mapping_def)

lemma convert_property_ok:
  assumes "prop_ok d"
  shows "convert_property d = Inr \<lparr>ptype = vendor_type d, pdescription = prop_description d\<rparr>"
proof -
  from assms obtain fs where d: "d = JObj fs"
    by (cases d) (auto simp: prop_ok_def)
  show ?thesis
  proof (cases "map_of fs ''type''")
    case None
    then show ?thesis
      unfolding convert_property_def get_type_upper_def vendor_type_def prop_description_def d
      by (simp add: type_mapping_lookup lower_upper_STRING Let_def split: option.splits)
  next
    case (Some v)
    with assms d obtain t where v: "v = JStr t"
      by (cases v) (auto simp: prop_ok_def)
    with Some show ?thesis
      unfolding convert_property_def get_type_upper_def vendor_type_def prop_description_def d
      by (simp add: type_mapping_lookup Let_def split: option.splits)
  qed
qed

lemma convert_properties_ok:
  assumes "list_all (\<lambda>(n, d). prop_ok d) props"
    and "distinct (map fst props)"
    and "fst ` set acc \<inter> fst ` set props = {}"
  shows "convert_properties props acc =
           Inr (acc @ map (\<lambda>(n, d). (n, \<lparr>ptype = vendor_type d, pdescription = prop_description d\<rparr>)) props)"
  using assms
proof (induction props arbitrary: acc)
  case Nil
  then show ?case by simp
next
  case (Cons p props)
  obtain n d where p: "p = (n, d)" by (cases p)
  from Cons.prems p have ok: "prop_ok d" by simp
  from Cons.prems p have fresh: "n \<notin> fst ` set acc" by auto
  have upd: "AList.update n v acc = acc @ [(n, v)]" for v
    using fresh by (induction acc) auto
  have "fst ` set (acc @ [(n, v)]) \<inter> fst ` set props = {}" for v
    using Cons.prems p by auto
  with Cons.IH [of "acc @ [(n, _)]"] Cons.prems p
  show ?case
    by (simp add: p convert_property_ok [OF ok] upd)
qed

lemma convert_tool_ok:
  assumes "schema_ok (input_schema tool)"
  shows "convert_tool tool = Inr (projected tool)"
proof (cases "map_of (input_schema tool) ''properties''")
  case None
  then show ?thesis
    by (cases "input_schema tool = []")
       (auto simp: convert_tool_def projected_def Let_def split: option.splits)
next
  case (Some v)
  with assms obtain props where v: "v = JObj props"
    and ok: "list_all (\<lambda>(n, d). prop_ok d) props" and dist: "distinct (map fst props)"
    by (cases v) (auto simp: schema_ok_def)
  from Some have ne: "input_schema tool \<noteq> []" by auto
  from convert_properties_ok [OF ok dist, of "[]"]
  have "convert_properties props [] =
          Inr (map (\<lambda>(n, d). (n, \<lparr>ptype = vendor_type d, pdescription = prop_description d\<rparr>)) props)"
    by simp
  with Some v ne show ?thesis
    by (auto simp: convert_tool_def projected_def Let_def split: option.splits)
qed

text \<open>
  C8, as amended. On tool descriptors with well-formed schemas the projector succeeds and
  returns, for each tool in order, a declaration with the tool's name and description and
  with parameters of type \<open>OBJECT\<close>: each property keeps its name and position, gets the
  vendor type of its type name (\<open>NUMBER\<close>, \<open>INTEGER\<close>, \<open>BOOLEAN\<close>, \<open>ARRAY\<close>, \<open>OBJECT\<close> for
  number, integer, boolean, array, object in any letter case; \<open>STRING\<close> for every other
  name and for a missing one) and keeps its description if it has one; the schema's
  \<open>required\<close> entry is kept, and is the empty list when the schema has none.
\<close>

theorem gemini_projection:
  assumes "list_all (\<lambda>tool. schema_ok (input_schema tool)) available_tools"
  shows "convert_tools_to_gemini_format available_tools =
           Inr (map
             (\<lambda>tool.
                \<lparr>fname = name tool, fdescription = description tool,
                 fparameters =
                   \<lparr>type = ''OBJECT'',
                    properties =
                      (case map_of (input_schema tool) ''properties'' of
                         Some (JObj props) \<Rightarrow>
                           map (\<lambda>(n, d). (n, \<lparr>ptype = vendor_type d,
                                               pdescription = prop_description d\<rparr>)) props
                       | _ \<Rightarrow> []),
                    required =
                      (case map_of (input_schema tool) ''required'' of
                         Some r \<Rightarrow> r
                       | None \<Rightarrow> JArr [])\<rparr>\<rparr>)
             available_tools)"
  using assms
  by (induction available_tools) (simp_all add: convert_tool_ok projected_def)

theorem gemini_projection_witness:
  "list_all (\<lambda>tool. schema_ok (input_schema tool))
     [\<lparr>name = ''run_query'', description = Some ''Run a query'',
       input_schema =
         [(''type'', JStr ''object''),
          (''properties'',
             JObj [(''limit'', JObj [(''type'', JStr ''integer''), (''description'', JStr ''row limit'')]),
                   (''sql'', JObj [(''type'', JStr ''string'')]),
                   (''extra'', JObj [])]),
          (''required'', JArr [JStr ''sql''])]\<rparr>]
   \<and> convert_tools_to_gemini_format
     [\<lparr>name = ''run_query'', description = Some ''Run a query'',
       input_schema =
         [(''type'', JStr ''object''),
          (''properties'',
             JObj [(''limit'', JObj [(''type'', JStr ''integer''), (''description'', JStr ''row limit'')]),
                   (''sql'', JObj [(''type'', JStr ''string'')]),
                   (''extra'', JObj [])]),
          (''required'', JArr [JStr ''sql''])]\<rparr>]
   = Inr [\<lparr>fname = ''run_query'', fdescription = Some ''Run a query'',
           fparameters =
             \<lparr>type = ''OBJECT'',
              properties =
                [(''limit'', \<lparr>ptype = ''INTEGER'', pdescription = Some (JStr ''row limit'')\<rparr>),
                 (''sql'', \<lparr>ptype = ''STRING'', pdescription = None\<rparr>),
                 (''extra'', \<lparr>ptype = ''STRING'', pdescription = None\<rparr>)],
              required = JArr [JStr ''sql'']\<rparr>\<rparr>]"
proof -
  have ok: "list_all (\<lambda>tool. schema_ok (input_schema tool))
     [\<lparr>name = ''run_query'', description = Some ''Run a query'',
       input_schema =
         [(''type'', JStr ''object''),
          (''properties'',
             JObj [(''limit'', JObj [(''type'', JStr ''integer''), (''description'', JStr ''row limit'')]),
                   (''sql'', JObj [(''type'', JStr ''string'')]),
                   (''extra'', JObj [])]),
          (''required'', JArr [JStr ''sql''])]\<rparr>]"
    by (simp add: schema_ok_def prop_ok_def)
  have vt: "vendor_type (JObj [(''type'', JStr ''integer''), (''description'', JStr ''row limit'')]) = ''INTEGER''"
     "vendor_type (JObj [(''type'', JStr ''string'')]) = ''STRING''"
     "vendor_type (JObj []) = ''STRING''"
    by code_simp+
  from gemini_projection [OF ok] ok show ?thesis
    by (simp add: vt prop_description_def)
qed

text \<open>
  C8 as stated fails: the type name \<open>Integer\<close> is none of the five names, and the projector
  maps it to \<open>INTEGER\<close>, not to \<open>STRING\<close>.
\<close>

theorem gemini_projection_counterexample:
  "''Integer'' \<notin> {''number'', ''integer'', ''boolean'', ''array'', ''object''} \<and>
   convert_tools_to_gemini_format
     [\<lparr>name = ''t'', description = None,
       input_schema = [(''properties'', JObj [(''n'', JObj [(''type'', JStr ''Integer'')])])]\<rparr>]
   = Inr [\<lparr>fname = ''t'', fdescription = None,
           fparameters =
             \<lparr>type = ''OBJECT'',
              properties = [(''n'', \<lparr>ptype = ''INTEGER'', pdescription = None\<rparr>)],
              required = JArr []\<rparr>\<rparr>]"
  by code_simp

section \<open>The adapters and the list they are given\<close>

lemmas comp_defs = bindE_def returnE_def raiseE_def new_list_def truthy_messages_def
  list_get_def list_extend_def list_append_def call_out_def

lemma anthropic_effect:
  assumes "allocated prev s"
    and "anthropic_process_query anthropic model q tools prev s = (r, s')"
  shows "s' = with_new s (prior_of prev s @ [msg ''user'' q]) (outside s') \<and>
           (\<forall>t m. r = Inr (t, m) \<longrightarrow> m = next_ref s)"
  using assms
  by (cases prev; cases "lists s (the prev) = []")
     (auto simp: anthropic_process_query_def comp_defs prior_of_def allocated_def
        with_new_def Let_def
        split: prod.splits sum.splits option.splits if_splits)

lemma openai_effect:
  assumes "allocated prev s"
    and "openai_process_query json_loads openai model q tools prev s = (r, s')"
  shows "s' = with_new s (prior_of prev s @ [msg ''user'' q] @
                    turn_extension (OpenAIService openai model) q tools (prior_of prev s) (outside s)) (outside s') \<and>
           (\<forall>t m. r = Inr (t, m) \<longrightarrow> m = next_ref s)"
  using assms
  by (cases prev; cases "lists s (the prev) = []")
     (auto simp: openai_process_query_def comp_defs prior_of_def allocated_def
        with_new_def Let_def turn_extension_def
        split: prod.splits sum.splits option.splits if_splits list.splits)

lemma gemini_effect:
  assumes "allocated prev s"
    and "gemini_process_query json_loads gemini model q tools prev s = (r, s')"
  shows "(s' = s\<lparr>outside := outside s'\<rparr> \<and> (\<exists>e. r = Inl e)) \<or>
           (s' = with_new s (prior_of prev s @ [msg ''user'' q]) (outside s') \<and>
            (\<forall>t m. r = Inr (t, m) \<longrightarrow> m = next_ref s))"
  using assms
  by (cases prev; cases "lists s (the prev) = []")
     (auto simp: gemini_process_query_def comp_defs prior_of_def allocated_def
        with_new_def Let_def
        split: prod.splits sum.splits option.splits if_splits list.splits candidate.splits)

lemma service_effect:
  assumes "allocated prev s"
    and "service_process_query json_loads svc q tools prev s = (r, s')"
  shows "(s' = s\<lparr>outside := outside s'\<rparr> \<and> (\<exists>e. r = Inl e)) \<or>
           (s' = with_new s (prior_of prev s @ [msg ''user'' q] @
                    turn_extension svc q tools (prior_of prev s) (outside s)) (outside s') \<and>
            (\<forall>t m. r = Inr (t, m) \<longrightarrow> m = next_ref s))"
proof (cases svc)
  case (AnthropicService c m)
  with anthropic_effect [OF assms(1), of c m q tools r s'] assms(2) show ?thesis
    by (auto simp: turn_extension_def)
next
  case (OpenAIService c m)
  with openai_effect [OF assms(1), of json_loads c m q tools r s'] assms(2) show ?thesis
    by auto
next
  case (GeminiService c m)
  with gemini_effect [OF assms(1), of json_loads c m q tools r s'] assms(2) show ?thesis
    by (auto simp: turn_extension_def)
qed

text \<open>What each adapter returns or raises, in terms of what its vendor replies.\<close>

lemma anthropic_result:
  assumes "allocated prev s"
  shows "fst (anthropic_process_query anthropic model q tools prev s) =
     (case fst (anthropic model (prior_of prev s @ [msg ''user'' q]) tools 1000 (outside s)) of
        Inl e \<Rightarrow> Inl e
      | Inr response_content \<Rightarrow>
          Inr (join [newline] (anthropic_final_text response_content), next_ref s))"
  using assms
  by (cases prev; cases "lists s (the prev) = []")
     (auto simp: anthropic_process_query_def comp_defs prior_of_def allocated_def
        split: prod.splits sum.splits)

lemma openai_result:
  assumes "allocated prev s"
  shows "fst (openai_process_query json_loads openai model q tools prev s) =
     (case fst (openai model (prior_of prev s @ [msg ''user'' q])
                  (map (\<lambda>tool. FunctionTool (name tool) (description tool) (input_schema tool))
                     tools) (outside s)) of
        Inl e \<Rightarrow> Inl e
      | Inr [] \<Rightarrow> Inl IndexError
      | Inr (response_message # _) \<Rightarrow>
          (case message_tool_calls response_message of
             Some (tc # tcs) \<Rightarrow>
               (case openai_tool_markers json_loads (tc # tcs) of
                  Inl e \<Rightarrow> Inl e
                | Inr markers \<Rightarrow>
                    Inr (join [newline]
                           ((case message_content response_message of
                               None \<Rightarrow> [] | Some c \<Rightarrow> c) # markers), next_ref s))
           | _ \<Rightarrow>
               (case message_content response_message of
                  None \<Rightarrow> Inl TypeError
                | Some c \<Rightarrow> Inr (join [newline] [c], next_ref s))))"
  using assms
  by (cases prev; cases "lists s (the prev) = []")
     (auto simp: openai_process_query_def comp_defs prior_of_def allocated_def Let_def
        split: prod.splits sum.splits list.splits option.splits)

lemma gemini_result:
  "fst (gemini_process_query json_loads gemini model q tools prev s) =
     (case convert_tools_to_gemini_format tools of
        Inl e \<Rightarrow> Inl e
      | Inr gemini_tools \<Rightarrow>
          (case chats_create gemini model gemini_tools
                  (prepare_gemini_chat_history (prior_of prev s)) (outside s) of
             (Inl e, w1) \<Rightarrow> Inl e
           | (Inr created, w1) \<Rightarrow>
               (case fst (send_message gemini q w1) of
                  Inl e \<Rightarrow> Inl e
                | Inr candidates \<Rightarrow>
                    (case candidates of
                       Candidate (Some (Some parts)) # _ \<Rightarrow>
                         Inr (join [newline] (gemini_final_text json_loads parts), next_ref s)
                     | Candidate (Some None) # _ \<Rightarrow> Inl TypeError
                     | _ \<Rightarrow> Inr (join [newline] [], next_ref s)))))"
  by (cases prev; cases "lists s (the prev) = []")
     (auto simp: gemini_process_query_def comp_defs prior_of_def Let_def
        split: prod.splits sum.splits list.splits option.splits candidate.splits)

lemma service_returns:
  assumes "allocated prev s"
  shows "(\<exists>p. fst (service_process_query json_loads svc q tools prev s) = Inr p) \<longleftrightarrow>
           vendor_replies json_loads svc q tools (prior_of prev s) (outside s)"
proof (cases svc)
  case (AnthropicService c m)
  then show ?thesis
    by (simp add: anthropic_result [OF assms] vendor_replies_def split: sum.splits)
next
  case (OpenAIService c m)
  then show ?thesis
    by (simp add: openai_result [OF assms] vendor_replies_def
          split: sum.splits list.splits option.splits)
next
  case (GeminiService c m)
  then show ?thesis
    by (simp add: gemini_result vendor_replies_def
          split: sum.splits prod.splits list.splits option.splits candidate.splits)
qed

lemma with_new_simps:
  "lists (with_new s xs w) = (lists s)(next_ref s := xs)"
  "next_ref (with_new s xs w) = Suc (next_ref s)"
  "outside (with_new s xs w) = w"
  by (simp_all add: with_new_def)

lemma service_lists:
  assumes "allocated prev s"
    and "service_process_query json_loads svc q tools prev s = (r, s')"
  shows "(\<forall>a<next_ref s. lists s' a = lists s a) \<and>
         (\<forall>t m. r = Inr (t, m) \<longrightarrow>
            m = next_ref s \<and>
            lists s' m = prior_of prev s @ [msg ''user'' q] @
                           turn_extension svc q tools (prior_of prev s) (outside s))"
proof -
  let ?ext = "turn_extension svc q tools (prior_of prev s) (outside s)"
  from service_effect [OF assms]
  consider (early) "s' = s\<lparr>outside := outside s'\<rparr>" "\<exists>e. r = Inl e"
    | (made) "s' = with_new s (prior_of prev s @ [msg ''user'' q] @ ?ext) (outside s')"
        "\<forall>t m. r = Inr (t, m) \<longrightarrow> m = next_ref s"
    by blast
  then show ?thesis
  proof cases
    case early
    from early(1) have "lists s' = lists s"
      by (metis state.select_convs(1) state.surjective state.update_convs(3))
    with early(2) show ?thesis by auto
  next
    case made
    from made(1) have l: "lists s' = (lists s)(next_ref s :=
        prior_of prev s @ [msg ''user'' q] @ ?ext)"
      by (metis with_new_simps(1))
    with made(2) show ?thesis by simp
  qed
qed

lemma service_frame:
  assumes "allocated previous_messages s"
    and "service_process_query json_loads svc query available_tools previous_messages s = (r, s')"
  shows "\<forall>a<next_ref s. lists s' a = lists s a"
  using service_lists [OF assms] by blast

lemma call_out_frame:
  "call_out m s = (r, s') \<Longrightarrow> lists s' = lists s \<and> next_ref s' = next_ref s"
  by (auto simp: call_out_def split: prod.splits)

lemma turn_extension_length:
  "length (turn_extension svc q tools prior w) =
     (case svc of
        OpenAIService openai model \<Rightarrow>
          (case fst (openai model (prior @ [msg ''user'' q])
                       (map (\<lambda>tool. FunctionTool (name tool) (description tool)
                                      (input_schema tool)) tools) w) of
             Inr (response_message # _) \<Rightarrow>
               (case message_tool_calls response_message of
                  Some (tc # tcs) \<Rightarrow> 1
                | _ \<Rightarrow> 0)
           | _ \<Rightarrow> 0)
      | _ \<Rightarrow> 0)"
  by (cases svc) (auto simp: turn_extension_def split: sum.splits list.splits option.splits)

text \<open>
  C10. An adapter that is given a list created before (or \<open>None\<close>) changes no list that
  existed when it was called, whether it returns or raises. It returns exactly when its
  vendor replies (\<^const>\<open>vendor_replies\<close>), and then it returns, beside the text, a list that
  did not exist before, holding the messages of the given list, then the user message with
  the query, and then what \<^const>\<open>turn_extension\<close> gives: for OpenAI with a reply that
  carries tool calls the assistant message with these tool calls, and nothing otherwise.
\<close>

theorem adapters_keep_prior_messages:
  assumes "allocated previous_messages s"
    and "service_process_query json_loads svc query available_tools previous_messages s = (r, s')"
  shows "(\<forall>a<next_ref s. lists s' a = lists s a) \<and>
         ((\<exists>response_text. r = Inr (response_text, next_ref s)) \<longleftrightarrow>
            vendor_replies json_loads svc query available_tools
              (prior_of previous_messages s) (outside s)) \<and>
         (\<forall>response_text messages. r = Inr (response_text, messages) \<longrightarrow>
            messages = next_ref s \<and>
            lists s' messages =
              prior_of previous_messages s @ [msg ''user'' query] @
              turn_extension svc query available_tools
                (prior_of previous_messages s) (outside s))"
proof -
  note l = service_lists [OF assms]
  from assms(2) have "fst (service_process_query json_loads svc query available_tools
      previous_messages s) = r"
    by simp
  with service_returns [OF assms(1), of json_loads svc query available_tools]
  have "(\<exists>p. r = Inr p) \<longleftrightarrow>
          vendor_replies json_loads svc query available_tools
            (prior_of previous_messages s) (outside s)"
    by simp
  moreover from l have "(\<exists>p. r = Inr p) \<longleftrightarrow> (\<exists>response_text. r = Inr (response_text, next_ref s))"
    by auto
  ultimately show ?thesis using l by blast
qed

text \<open>
  C6. When \<open>previous_messages\<close> is \<open>None\<close> or an empty list, each adapter returns exactly when
  its vendor replies (\<^const>\<open>vendor_replies\<close>), and the list it returns then has one message
  with Anthropic and Gemini, and with OpenAI two when the vendor's reply carries tool calls
  and one when it does not.
\<close>

theorem messages_from_empty:
  assumes "allocated previous_messages s"
    and "prior_of previous_messages s = []"
    and "service_process_query json_loads svc query available_tools previous_messages s = (r, s')"
  shows "((\<exists>response_text messages. r = Inr (response_text, messages)) \<longleftrightarrow>
            vendor_replies json_loads svc query available_tools [] (outside s)) \<and>
         (\<forall>response_text messages. r = Inr (response_text, messages) \<longrightarrow>
            length (lists s' messages) =
              (case svc of
                 AnthropicService anthropic model \<Rightarrow> 1
               | GeminiService gemini model \<Rightarrow> 1
               | OpenAIService openai model \<Rightarrow>
                   (case fst (openai model [msg ''user'' query]
                                (map (\<lambda>tool. FunctionTool (name tool) (description tool)
                                               (input_schema tool)) available_tools)
                                (outside s)) of
                      Inr (response_message # _) \<Rightarrow>
                        (case message_tool_calls response_message of
                           Some (tc # tcs) \<Rightarrow> 2
                         | _ \<Rightarrow> 1)
                    | _ \<Rightarrow> 1)))"
proof -
  let ?ext = "turn_extension svc query available_tools [] (outside s)"
  from assms(3) have "fst (service_process_query json_loads svc query available_tools
      previous_messages s) = r"
    by simp
  with service_returns [OF assms(1), of json_loads svc query available_tools] assms(2)
  have ret: "(\<exists>response_text messages. r = Inr (response_text, messages)) \<longleftrightarrow>
          vendor_replies json_loads svc query available_tools [] (outside s)"
    by simp
  have "length (lists s' messages) = 1 + length ?ext"
    if "r = Inr (response_text, messages)" for response_text messages
  proof -
    from service_lists [OF assms(1,3)] that
    have "lists s' messages = prior_of previous_messages s @ [msg ''user'' query] @
        turn_extension svc query available_tools (prior_of previous_messages s) (outside s)"
      by blast
    then show ?thesis by (simp add: assms(2))
  qed
  then have len: "\<forall>response_text messages. r = Inr (response_text, messages) \<longrightarrow>
      length (lists s' messages) = 1 + length ?ext"
    by blast
  have "1 + length ?ext =
      (case svc of
                 AnthropicService anthropic model \<Rightarrow> 1
               | GeminiService gemini model \<Rightarrow> 1
               | OpenAIService openai model \<Rightarrow>
                   (case fst (openai model [msg ''user'' query]
                                (map (\<lambda>tool. FunctionTool (name tool) (description tool)
                                               (input_schema tool)) available_tools)
                                (outside s)) of
                      Inr (response_message # _) \<Rightarrow>
                        (case message_tool_calls response_message of
                           Some (tc # tcs) \<Rightarrow> 2
                         | _ \<Rightarrow> 1)
                    | _ \<Rightarrow> 1))"
    by (cases svc)
       (auto simp: turn_extension_def split: sum.splits list.splits option.splits)
  with ret len show ?thesis by simp
qed

theorem adapters_keep_prior_messages_witness:
  "allocated (Some 0) (example_state ()) \<and>
   fst (service_process_query example_loads (OpenAIService example_openai ''gpt-4o'') ''tables?'' []
          (Some 0) (example_state ())) =
     Inr ([newline] @ ''[Tool call: list_tables with args {}]'', 1) \<and>
   lists (snd (service_process_query example_loads (OpenAIService example_openai ''gpt-4o'') ''tables?'' []
          (Some 0) (example_state ()))) 0 = [msg ''user'' ''hi'', msg ''assistant'' ''hello''] \<and>
   lists (snd (service_process_query example_loads (OpenAIService example_openai ''gpt-4o'') ''tables?'' []
          (Some 0) (example_state ()))) 1 =
     [msg ''user'' ''hi'', msg ''assistant'' ''hello'', msg ''user'' ''tables?'',
      \<lparr>role = ''assistant'', content = NoContent,
       tool_calls = Some [\<lparr>function_name = ''list_tables'', function_arguments = ''{}''\<rparr>]\<rparr>] \<and>
   fst (service_process_query example_loads (AnthropicService example_anthropic ''claude'') ''tables?'' []
          (Some 0) (example_state ())) =
     Inr (''Let me check.'' @ [newline] @ ''[Tool call: list_tables with args {}]'', 1) \<and>
   lists (snd (service_process_query example_loads (AnthropicService example_anthropic ''claude'') ''tables?'' []
          (Some 0) (example_state ()))) 0 = [msg ''user'' ''hi'', msg ''assistant'' ''hello''] \<and>
   lists (snd (service_process_query example_loads (AnthropicService example_anthropic ''claude'') ''tables?'' []
          (Some 0) (example_state ()))) 1 =
     [msg ''user'' ''hi'', msg ''assistant'' ''hello'', msg ''user'' ''tables?''] \<and>
   fst (service_process_query example_loads (GeminiService speaking_gemini ''gemini'') ''tables?'' []
          (Some 0) (example_state ())) =
     Inr (''Two tables.'' @ [newline] @ ''[Tool call: list_tables with args {}]'', 1) \<and>
   lists (snd (service_process_query example_loads (GeminiService speaking_gemini ''gemini'') ''tables?'' []
          (Some 0) (example_state ()))) 0 = [msg ''user'' ''hi'', msg ''assistant'' ''hello''] \<and>
   lists (snd (service_process_query example_loads (GeminiService speaking_gemini ''gemini'') ''tables?'' []
          (Some 0) (example_state ()))) 1 =
     [msg ''user'' ''hi'', msg ''assistant'' ''hello'', msg ''user'' ''tables?'']"
proof -
  let ?o = "service_process_query example_loads (OpenAIService example_openai ''gpt-4o'') ''tables?'' []
          (Some 0) (example_state ())"
  let ?a = "service_process_query example_loads (AnthropicService example_anthropic ''claude'') ''tables?'' []
          (Some 0) (example_state ())"
  let ?g = "service_process_query example_loads (GeminiService speaking_gemini ''gemini'') ''tables?'' []
          (Some 0) (example_state ())"
  have al: "allocated (Some 0) (example_state ())"
    by (simp add: allocated_def example_state_def)
  have pr: "prior_of (Some 0) (example_state ()) = [msg ''user'' ''hi'', msg ''assistant'' ''hello'']"
    by (simp add: prior_of_def example_state_def)
  have l0: "lists (example_state ()) 0 = [msg ''user'' ''hi'', msg ''assistant'' ''hello'']"
    and n: "next_ref (example_state ()) = 1"
    by (simp_all add: example_state_def)
  have ro: "fst ?o = Inr ([newline] @ ''[Tool call: list_tables with args {}]'', 1)"
    by code_simp
  have ra: "fst ?a = Inr (''Let me check.'' @ [newline] @ ''[Tool call: list_tables with args {}]'', 1)"
    by code_simp
  have rg: "fst ?g = Inr (''Two tables.'' @ [newline] @ ''[Tool call: list_tables with args {}]'', 1)"
    by code_simp
  have po: "?o = (fst ?o, snd ?o)" and pa: "?a = (fst ?a, snd ?a)" and pg: "?g = (fst ?g, snd ?g)"
    by simp_all
  from adapters_keep_prior_messages [OF al po] ro
  have o: "lists (snd ?o) 0 = [msg ''user'' ''hi'', msg ''assistant'' ''hello''] \<and>
      lists (snd ?o) 1 = [msg ''user'' ''hi'', msg ''assistant'' ''hello'', msg ''user'' ''tables?'',
      \<lparr>role = ''assistant'', content = NoContent,
       tool_calls = Some [\<lparr>function_name = ''list_tables'', function_arguments = ''{}''\<rparr>]\<rparr>]"
    by (simp add: pr l0 n turn_extension_def example_openai_def returnE_def)
  from adapters_keep_prior_messages [OF al pa] ra
  have a: "lists (snd ?a) 0 = [msg ''user'' ''hi'', msg ''assistant'' ''hello''] \<and>
      lists (snd ?a) 1 = [msg ''user'' ''hi'', msg ''assistant'' ''hello'', msg ''user'' ''tables?'']"
    by (simp add: pr l0 n turn_extension_def)
  from adapters_keep_prior_messages [OF al pg] rg
  have g: "lists (snd ?g) 0 = [msg ''user'' ''hi'', msg ''assistant'' ''hello''] \<and>
      lists (snd ?g) 1 = [msg ''user'' ''hi'', msg ''assistant'' ''hello'', msg ''user'' ''tables?'']"
    by (simp add: pr l0 n turn_extension_def)
  from al ro ra rg o a g show ?thesis by blast
qed

theorem messages_from_empty_witness:
  "allocated None (example_state ()) \<and>
   prior_of None (example_state ()) = [] \<and>
   fst (service_process_query example_loads (AnthropicService example_anthropic ''claude'') ''tables?'' []
          None (example_state ())) =
     Inr (''Let me check.'' @ [newline] @ ''[Tool call: list_tables with args {}]'', 1) \<and>
   length (lists (snd (service_process_query example_loads (AnthropicService example_anthropic ''claude'')
          ''tables?'' [] None (example_state ()))) 1) = 1 \<and>
   fst (service_process_query example_loads (OpenAIService example_openai ''gpt-4o'') ''tables?'' []
          None (example_state ())) =
     Inr ([newline] @ ''[Tool call: list_tables with args {}]'', 1) \<and>
   length (lists (snd (service_process_query example_loads (OpenAIService example_openai ''gpt-4o'')
          ''tables?'' [] None (example_state ()))) 1) = 2 \<and>
   fst (service_process_query example_loads (GeminiService speaking_gemini ''gemini'') ''tables?'' []
          None (example_state ())) =
     Inr (''Two tables.'' @ [newline] @ ''[Tool call: list_tables with args {}]'', 1) \<and>
   length (lists (snd (service_process_query example_loads (GeminiService speaking_gemini ''gemini'')
          ''tables?'' [] None (example_state ()))) 1) = 1"
proof -
  let ?a = "service_process_query example_loads (AnthropicService example_anthropic ''claude'') ''tables?'' []
          None (example_state ())"
  let ?o = "service_process_query example_loads (OpenAIService example_openai ''gpt-4o'') ''tables?'' []
          None (example_state ())"
  let ?g = "service_process_query example_loads (GeminiService speaking_gemini ''gemini'') ''tables?'' []
          None (example_state ())"
  have al: "allocated None (example_state ())"
    by (simp add: allocated_def)
  have e: "prior_of None (example_state ()) = []"
    by (simp add: prior_of_def)
  have ra: "fst ?a = Inr (''Let me check.'' @ [newline] @ ''[Tool call: list_tables with args {}]'', 1)"
    by code_simp
  have ro: "fst ?o = Inr ([newline] @ ''[Tool call: list_tables with args {}]'', 1)"
    by code_simp
  have rg: "fst ?g = Inr (''Two tables.'' @ [newline] @ ''[Tool call: list_tables with args {}]'', 1)"
    by code_simp
  have pa: "?a = (fst ?a, snd ?a)" and po: "?o = (fst ?o, snd ?o)" and pg: "?g = (fst ?g, snd ?g)"
    by simp_all
  from messages_from_empty [OF al e pa] ra
  have a: "length (lists (snd ?a) 1) = 1"
    by simp
  from messages_from_empty [OF al e po] ro
  have o: "length (lists (snd ?o) 1) = 2"
    by (simp add: example_openai_def returnE_def)
  from messages_from_empty [OF al e pg] rg
  have g: "length (lists (snd ?g) 1) = 1"
    by simp
  from al e ra ro rg a o g show ?thesis by blast
qed

section \<open>The mediator\<close>

lemma tool_loop_frame:
  "tool_loop json_loads sess ms rtext s = (r, s') \<Longrightarrow> lists s' = lists s \<and> next_ref s' = next_ref s"
proof (induction ms arbitrary: rtext s)
  case Nil
  then show ?case by (simp add: returnE_def)
next
  case (Cons m ms)
  obtain n a where m: "m = (n, a)" by (cases m)
  show ?case
  proof (cases "call_tool sess n (parse_tool_args json_loads a) (outside s)")
    case (Pair r1 w1)
    show ?thesis
    proof (cases r1)
      case (Inl e)
      with Cons.prems m Pair show ?thesis
        by (auto simp: bindE_def call_out_def Let_def)
    next
      case (Inr result)
      with Cons.prems m Pair
      have "tool_loop json_loads sess ms (rtext @ [newline] @ ''[tool results: '' @ result @ '']'')
              (s\<lparr>outside := w1\<rparr>) = (r, s')"
        by (simp add: bindE_def call_out_def Let_def)
      from Cons.IH [OF this] show ?thesis by simp
    qed
  qed
qed

lemma tool_loop_logged:
  "tool_loop json_loads (logged sess) ms rtext s = (r, s') \<Longrightarrow>
   \<exists>calls. call_log s' = call_log s @ calls \<and>
     map (\<lambda>(n, a, out). (n, a)) calls =
       map (\<lambda>(n, a). (n, parse_tool_args json_loads a)) (take (length calls) ms) \<and>
     (case r of
        Inr rtext' \<Rightarrow>
          length calls = length ms \<and>
          rtext' = rtext @ concat (map (\<lambda>(n, a, out). case out of
                     Inr result \<Rightarrow> [newline] @ ''[tool results: '' @ result @ '']''
                   | Inl e \<Rightarrow> []) calls) \<and>
          (\<forall>c \<in> set calls. \<exists>result. snd (snd c) = Inr result)
      | Inl e \<Rightarrow> calls \<noteq> [] \<and> length calls \<le> length ms \<and> snd (snd (last calls)) = Inl e)"
proof (induction ms arbitrary: rtext s)
  case Nil
  then show ?case by (auto simp: returnE_def)
next
  case (Cons m ms)
  obtain n a where m: "m = (n, a)" by (cases m)
  obtain w log where o: "outside s = (w, log)" by (cases "outside s")
  show ?case
  proof (cases "call_tool sess n (parse_tool_args json_loads a) w")
    case (Pair r1 w1)
    show ?thesis
    proof (cases r1)
      case (Inl e)
      with Cons.prems m Pair o
      have "r = Inl e" and "call_log s' = call_log s @ [(n, parse_tool_args json_loads a, Inl e)]"
        by (auto simp: bindE_def call_out_def Let_def logged_def call_log_def)
      then show ?thesis
        by (intro exI [of _ "[(n, parse_tool_args json_loads a, Inl e)]"]) (simp add: m)
    next
      case (Inr result)
      let ?s1 = "s\<lparr>outside := (w1, log @ [(n, parse_tool_args json_loads a, Inr result)])\<rparr>"
      let ?t1 = "rtext @ [newline] @ ''[tool results: '' @ result @ '']''"
      from Inr Cons.prems m Pair o
      have run: "tool_loop json_loads (logged sess) ms ?t1 ?s1 = (r, s')"
        by (simp add: bindE_def call_out_def Let_def logged_def)
      from Cons.IH [OF run] obtain calls where
        c1: "call_log s' = call_log ?s1 @ calls" and
        c2: "map (\<lambda>(n, a, out). (n, a)) calls =
               map (\<lambda>(n, a). (n, parse_tool_args json_loads a)) (take (length calls) ms)" and
        c3: "(case r of
        Inr rtext' \<Rightarrow>
          length calls = length ms \<and>
          rtext' = ?t1 @ concat (map (\<lambda>(n, a, out). case out of
                     Inr result \<Rightarrow> [newline] @ ''[tool results: '' @ result @ '']''
                   | Inl e \<Rightarrow> []) calls) \<and>
          (\<forall>c \<in> set calls. \<exists>result. snd (snd c) = Inr result)
      | Inl e \<Rightarrow> calls \<noteq> [] \<and> length calls \<le> length ms \<and> snd (snd (last calls)) = Inl e)"
        by blast
      let ?calls = "(n, parse_tool_args json_loads a, Inr result :: exn + string) # calls"
      from c1 o have "call_log s' = call_log s @ ?calls"
        by (simp add: call_log_def)
      moreover from c2 have "map (\<lambda>(n, a, out). (n, a)) ?calls =
          map (\<lambda>(n, a). (n, parse_tool_args json_loads a)) (take (length ?calls) (m # ms))"
        by (simp add: m)
      moreover from c3 have "(case r of
        Inr rtext' \<Rightarrow>
          length ?calls = length (m # ms) \<and>
          rtext' = rtext @ concat (map (\<lambda>(n, a, out). case out of
                     Inr result \<Rightarrow> [newline] @ ''[tool results: '' @ result @ '']''
                   | Inl e \<Rightarrow> []) ?calls) \<and>
          (\<forall>c \<in> set ?calls. \<exists>result. snd (snd c) = Inr result)
      | Inl e \<Rightarrow> ?calls \<noteq> [] \<and> length ?calls \<le> length (m # ms) \<and> snd (snd (last ?calls)) = Inl e)"
        by (cases r) auto
      ultimately show ?thesis by blast
    qed
  qed
qed

lemma strip_prefix_Some: "strip_prefix p s = Some r \<Longrightarrow> s = p @ r"
  by (induction p s rule: strip_prefix.induct) (auto split: if_splits)

lemma match_at_text:
  assumes "match_at s = Some (n, a, rest)"
  shows "s = marker_text n a @ rest"
proof -
  from assms obtain s1 c cs b where
      p1: "strip_prefix ''[Tool call: '' s = Some s1"
      and n: "n = takeWhile name_char s1"
      and p2: "strip_prefix '' with args '' (dropWhile name_char s1) = Some (c # cs)"
      and a: "a = c # takeWhile args_char cs"
      and d: "dropWhile args_char cs = b # rest" and b: "b = CHR '']''"
    by (auto simp: match_at_def Let_def split: option.splits list.splits if_splits)
  have "s1 = takeWhile name_char s1 @ dropWhile name_char s1" by simp
  also from strip_prefix_Some [OF p2]
  have "dropWhile name_char s1 = '' with args '' @ c # cs" .
  also have "cs = takeWhile args_char cs @ dropWhile args_char cs" by simp
  finally have "s1 = n @ '' with args '' @ a @ '']'' @ rest"
    using n a d b by simp
  with strip_prefix_Some [OF p1] show ?thesis
    by (simp add: marker_text_def)
qed

lemma in_order_Cons: "in_order ms s \<Longrightarrow> in_order ms (c # s)"
proof (cases ms)
  case Nil
  then show ?thesis by simp
next
  case (Cons m ms')
  assume "in_order ms s"
  with Cons obtain n a before rest where "m = (n, a)"
    "s = before @ marker_text n a @ rest" "in_order ms' rest"
    by (cases m) auto
  then have "c # s = (c # before) @ marker_text n a @ rest \<and> in_order ms' rest" by simp
  with Cons \<open>m = (n, a)\<close> show ?thesis
    by (metis in_order.simps(2))
qed

lemma findall_in_order: "in_order (findall s) s"
proof (induction s rule: findall.induct)
  case 1
  show ?case by simp
next
  case (2 c cs)
  show ?case
  proof (cases "match_at (c # cs)")
    case None
    with 2 show ?thesis by (simp add: in_order_Cons)
  next
    case (Some t)
    obtain n a rest where t: "t = (n, a, rest)" by (cases t)
    from match_at_text [of "c # cs" n a rest] Some t
    have "c # cs = [] @ marker_text n a @ rest" by simp
    moreover from 2 Some t have "in_order (findall rest) rest" by simp
    ultimately have "in_order ((n, a) # findall rest) (c # cs)"
      by (metis in_order.simps(2))
    with Some t show ?thesis by simp
  qed
qed

lemma tool_loop_results:
  assumes "tool_loop json_loads (logged sess) ms rtext s = (Inr rtext', s')"
  shows "\<exists>results calls. call_log s' = call_log s @ calls \<and>
           map (\<lambda>(n, a, out). out) calls = map Inr results \<and>
           length results = length ms \<and>
           rtext' = rtext @ concat (map (\<lambda>result. [newline] @ ''[tool results: '' @ result @ '']'') results)"
proof -
  from tool_loop_logged [OF assms] obtain calls where
    c1: "call_log s' = call_log s @ calls" and
    c3: "length calls = length ms"
        "rtext' = rtext @ concat (map (\<lambda>(n, a, out). case out of
                     Inr result \<Rightarrow> [newline] @ ''[tool results: '' @ result @ '']''
                   | Inl e \<Rightarrow> []) calls)"
        "\<forall>c \<in> set calls. \<exists>result. snd (snd c) = Inr result"
    by auto
  define results where "results = map (\<lambda>(n, a, out). case out of Inr result \<Rightarrow> result | Inl e \<Rightarrow> []) calls"
  from c3(3) have outs: "map (\<lambda>(n, a, out). out) calls = map Inr results"
    unfolding results_def by (induction calls) auto
  from c3(3) have "concat (map (\<lambda>(n, a, out). case out of
                     Inr result \<Rightarrow> [newline] @ ''[tool results: '' @ result @ '']''
                   | Inl e \<Rightarrow> []) calls) =
       concat (map (\<lambda>result. [newline] @ ''[tool results: '' @ result @ '']'') results)"
    unfolding results_def by (induction calls) auto
  with c1 c3 outs have "call_log s' = call_log s @ calls \<and>
           map (\<lambda>(n, a, out). out) calls = map Inr results \<and>
           length results = length ms \<and>
           rtext' = rtext @ concat (map (\<lambda>result. [newline] @ ''[tool results: '' @ result @ '']'') results)"
    by (simp add: results_def)
  then show ?thesis by blast
qed

lemma process_query_unfold:
  assumes "session self = Some sess"
    and "call_out (list_tools sess) s = (Inr response_tools, s1)"
    and "service_process_query json_loads (llm_service self) query (map tool_descriptor response_tools)
           previous_messages s1 = (Inr (response_text, messages), s2)"
  shows "process_query json_loads self query previous_messages s =
      (case tool_loop json_loads sess (findall response_text) response_text s2 of
         (Inl e, s3) \<Rightarrow> (Inl e, s3)
       | (Inr response_text', s3) \<Rightarrow> (Inr (response_text', messages), s3))"
  using assms
  by (simp add: process_query_def bindE_def returnE_def Let_def split: prod.splits sum.splits)

lemma process_query_logged:
  assumes "session self = Some (logged sess)"
    and "call_out (list_tools (logged sess)) s = (Inr response_tools, s1)"
    and "service_process_query json_loads (llm_service self) query (map tool_descriptor response_tools)
           previous_messages s1 = (Inr (response_text, messages), s2)"
    and "process_query json_loads self query previous_messages s = (r, s3)"
  shows "\<exists>calls. call_log s3 = call_log s2 @ calls \<and>
     map (\<lambda>(n, a, out). (n, a)) calls =
       map (\<lambda>(n, a). (n, parse_tool_args json_loads a))
         (take (length calls) (findall response_text)) \<and>
     (case r of
        Inr (response_text', messages') \<Rightarrow> length calls = length (findall response_text)
      | Inl e \<Rightarrow> calls \<noteq> [] \<and> length calls \<le> length (findall response_text) \<and>
          snd (snd (last calls)) = Inl e)"
proof -
  obtain r' where l: "tool_loop json_loads (logged sess) (findall response_text) response_text s2 =
      (r', s3)"
    and r: "r = (case r' of Inl e \<Rightarrow> Inl e | Inr response_text' \<Rightarrow> Inr (response_text', messages))"
    using assms(4) unfolding process_query_unfold [OF assms(1-3)]
    by (auto split: prod.splits sum.splits)
  from tool_loop_logged [OF l] obtain calls where
    c1: "call_log s3 = call_log s2 @ calls" and
    c2: "map (\<lambda>(n, a, out). (n, a)) calls =
           map (\<lambda>(n, a). (n, parse_tool_args json_loads a))
             (take (length calls) (findall response_text))" and
    c3: "(case r' of
        Inr rtext' \<Rightarrow>
          length calls = length (findall response_text) \<and>
          rtext' = response_text @ concat (map (\<lambda>(n, a, out). case out of
                     Inr result \<Rightarrow> [newline] @ ''[tool results: '' @ result @ '']''
                   | Inl e \<Rightarrow> []) calls) \<and>
          (\<forall>c \<in> set calls. \<exists>result. snd (snd c) = Inr result)
      | Inl e \<Rightarrow> calls \<noteq> [] \<and> length calls \<le> length (findall response_text) \<and>
          snd (snd (last calls)) = Inl e)"
    by blast
  from c3 r have "(case r of
        Inr (response_text', messages') \<Rightarrow> length calls = length (findall response_text)
      | Inl e \<Rightarrow> calls \<noteq> [] \<and> length calls \<le> length (findall response_text) \<and>
          snd (snd (last calls)) = Inl e)"
    by (cases r') auto
  with c1 c2 show ?thesis by blast
qed


text \<open>
  C5. Let the adapter return \<open>response_text\<close> in a run of \<open>process_query\<close>. The markers
  found occur in the text one behind the other, and the calls to the tool that
  \<open>process_query\<close> makes are, in this order, the calls for those markers, each with the name
  and the parsed arguments of its marker: all of them when \<open>process_query\<close> returns, and
  those up to the call that raised otherwise.
\<close>

theorem left_to_right_order:
  assumes "session self = Some (logged sess)"
    and "call_out (list_tools (logged sess)) s = (Inr response_tools, s1)"
    and "service_process_query json_loads (llm_service self) query (map tool_descriptor response_tools)
           previous_messages s1 = (Inr (response_text, messages), s2)"
    and "process_query json_loads self query previous_messages s = (r, s3)"
  shows "in_order (findall response_text) response_text \<and>
         (\<exists>calls. call_log s3 = call_log s2 @ calls \<and>
            map (\<lambda>(tool_name, tool_args, out). (tool_name, tool_args)) calls =
              map (\<lambda>(tool_name, tool_args_str). (tool_name, parse_tool_args json_loads tool_args_str))
                (take (length calls) (findall response_text)) \<and>
            (case r of
               Inr (response_text', messages') \<Rightarrow> length calls = length (findall response_text)
             | Inl e \<Rightarrow> calls \<noteq> [] \<and> length calls \<le> length (findall response_text) \<and>
                 snd (snd (last calls)) = Inl e))"
  using process_query_logged [OF assms] findall_in_order [of response_text] by blast

text \<open>
  C4. Let the adapter return \<open>response_text\<close>. When the text has no marker,
  \<open>process_query\<close> returns it unchanged with the adapter's messages and in the adapter's
  final state, so without any call to the tool. Whenever \<open>process_query\<close> returns, its
  text is \<open>response_text\<close> followed by one segment \<open>\n[tool results: result]\<close> for each marker,
  the results being those of the calls made, in the order of the calls.
\<close>

theorem mediator_output_shape:
  assumes "session self = Some (logged sess)"
    and "call_out (list_tools (logged sess)) s = (Inr response_tools, s1)"
    and "service_process_query json_loads (llm_service self) query (map tool_descriptor response_tools)
           previous_messages s1 = (Inr (response_text, messages), s2)"
  shows "(findall response_text = [] \<longrightarrow>
            process_query json_loads self query previous_messages s = (Inr (response_text, messages), s2)) \<and>
         (\<forall>response_text' messages' s3.
            process_query json_loads self query previous_messages s = (Inr (response_text', messages'), s3) \<longrightarrow>
            messages' = messages \<and>
            (\<exists>results calls.
               call_log s3 = call_log s2 @ calls \<and>
               map (\<lambda>(tool_name, tool_args, out). out) calls = map Inr results \<and>
               length results = length (findall response_text) \<and>
               response_text' = response_text @
                 concat (map (\<lambda>result. [newline] @ ''[tool results: '' @ result @ '']'')
                           results)))"
proof -
  have pq: "process_query json_loads self query previous_messages s =
      (case tool_loop json_loads (logged sess) (findall response_text) response_text s2 of
         (Inl e, s3) \<Rightarrow> (Inl e, s3)
       | (Inr response_text', s3) \<Rightarrow> (Inr (response_text', messages), s3))"
    by (rule process_query_unfold [OF assms])
  have none: "process_query json_loads self query previous_messages s = (Inr (response_text, messages), s2)"
    if "findall response_text = []"
    using that by (simp add: pq returnE_def)
  have some: "messages' = messages \<and>
            (\<exists>results calls.
               call_log s3 = call_log s2 @ calls \<and>
               map (\<lambda>(tool_name, tool_args, out). out) calls = map Inr results \<and>
               length results = length (findall response_text) \<and>
               response_text' = response_text @
                 concat (map (\<lambda>result. [newline] @ ''[tool results: '' @ result @ '']'')
                           results))"
    if run: "process_query json_loads self query previous_messages s = (Inr (response_text', messages'), s3)"
    for response_text' messages' s3
  proof -
    from run pq have "tool_loop json_loads (logged sess) (findall response_text) response_text s2 =
        (Inr response_text', s3)" and m: "messages' = messages"
      by (auto split: prod.splits sum.splits)
    from tool_loop_results [OF this(1)] m show ?thesis by simp
  qed
  from none some show ?thesis by blast
qed


theorem left_to_right_order_witness:
  "session (replying_client ordered_markers) = Some (logged example_session) \<and>
   in_order [(''list_tables'', ''{}''), (''count-rows'', ''{}'')] ordered_markers \<and>
   fst (service_process_query example_loads (llm_service (replying_client ordered_markers)) ''q''
          (map tool_descriptor
             [\<lparr>st_name = ''list_tables'', st_description = Some ''List the tables'',
               st_inputSchema = None\<rparr>])
          None (snd (call_out (list_tools (logged example_session)) (example_state ((), []))))) =
     Inr (ordered_markers, 1) \<and>
   fst (process_query example_loads (replying_client ordered_markers) ''q'' None
          (example_state ((), []))) =
     Inr (ordered_markers @ [newline] @ ''[tool results: result of list_tables]'' @
          [newline] @ ''[tool results: result of count-rows]'', 1) \<and>
   map (\<lambda>(tool_name, tool_args, out). (tool_name, tool_args))
     (call_log (snd (process_query example_loads (replying_client ordered_markers) ''q'' None
          (example_state ((), []))))) =
     [(''list_tables'', JObj []), (''count-rows'', JObj [])]"
proof -
  let ?s = "example_state ((), []) :: (unit \<times> call_record list) state"
  let ?tools = "[\<lparr>st_name = ''list_tables'', st_description = Some ''List the tables'',
           st_inputSchema = None\<rparr>]"
  let ?t1 = "call_out (list_tools (logged example_session)) ?s"
  let ?a = "service_process_query example_loads (llm_service (replying_client ordered_markers)) ''q''
          (map tool_descriptor ?tools) None (snd ?t1)"
  let ?run = "process_query example_loads (replying_client ordered_markers) ''q'' None ?s"
  have h1: "session (replying_client ordered_markers) = Some (logged example_session)"
    by (simp add: replying_client_def)
  have t1: "fst ?t1 = Inr ?tools" by code_simp
  have h2: "?t1 = (Inr ?tools, snd ?t1)"
    using t1 by (metis prod.collapse)
  have a: "fst ?a = Inr (ordered_markers, 1)" by code_simp
  have h3: "?a = (Inr (ordered_markers, 1), snd ?a)"
    using a by (metis prod.collapse)
  have l2: "call_log (snd ?a) = []" by code_simp
  have m: "findall ordered_markers = [(''list_tables'', ''{}''), (''count-rows'', ''{}'')]"
    by code_simp
  have j: "parse_tool_args example_loads ''{}'' = JObj []"
    by code_simp
  have r: "fst ?run = Inr (ordered_markers @ [newline] @ ''[tool results: result of list_tables]'' @
          [newline] @ ''[tool results: result of count-rows]'', 1)"
    by code_simp
  have p: "?run = (fst ?run, snd ?run)" by simp
  from left_to_right_order [OF h1 h2 h3 p] obtain calls where
    o: "in_order (findall ordered_markers) ordered_markers" and
    c1: "call_log (snd ?run) = call_log (snd ?a) @ calls" and
    c2: "map (\<lambda>(tool_name, tool_args, out). (tool_name, tool_args)) calls =
              map (\<lambda>(tool_name, tool_args_str). (tool_name, parse_tool_args example_loads tool_args_str))
                (take (length calls) (findall ordered_markers))" and
    c3: "(case fst ?run of
               Inr (response_text', messages') \<Rightarrow> length calls = length (findall ordered_markers)
             | Inl e \<Rightarrow> calls \<noteq> [] \<and> length calls \<le> length (findall ordered_markers) \<and>
                 snd (snd (last calls)) = Inl e)"
    by blast
  from c3 r m have len: "length calls = 2" by simp
  with c2 m j have "map (\<lambda>(tool_name, tool_args, out). (tool_name, tool_args)) calls =
      [(''list_tables'', JObj []), (''count-rows'', JObj [])]"
    by simp
  moreover from c1 l2 have "call_log (snd ?run) = calls" by simp
  ultimately show ?thesis using h1 o m a r by simp
qed

theorem mediator_output_shape_witness:
  "session example_client = Some (logged example_session) \<and>
   fst (call_out (list_tools (logged example_session)) (example_state ((), []))) =
     Inr [\<lparr>st_name = ''list_tables'', st_description = Some ''List the tables'',
           st_inputSchema = None\<rparr>] \<and>
   fst (service_process_query example_loads (llm_service example_client) ''Which tables are there?''
          (map tool_descriptor
             [\<lparr>st_name = ''list_tables'', st_description = Some ''List the tables'',
               st_inputSchema = None\<rparr>])
          None (snd (call_out (list_tools (logged example_session)) (example_state ((), []))))) =
     Inr (''Let me check.'' @ [newline] @ ''[Tool call: list_tables with args {}]'', 1) \<and>
   fst (process_query example_loads example_client ''Which tables are there?'' None (example_state ((), []))) =
     Inr (''Let me check.'' @ [newline] @ ''[Tool call: list_tables with args {}]'' @
          [newline] @ ''[tool results: result of list_tables]'', 1) \<and>
   (\<exists>results.
      length results = 1 \<and>
      ''Let me check.'' @ [newline] @ ''[Tool call: list_tables with args {}]'' @
          [newline] @ ''[tool results: result of list_tables]'' =
      (''Let me check.'' @ [newline] @ ''[Tool call: list_tables with args {}]'') @
        concat (map (\<lambda>result. [newline] @ ''[tool results: '' @ result @ '']'') results))"
proof -
  let ?s = "example_state ((), []) :: (unit \<times> call_record list) state"
  let ?tools = "[\<lparr>st_name = ''list_tables'', st_description = Some ''List the tables'',
           st_inputSchema = None\<rparr>]"
  let ?t1 = "call_out (list_tools (logged example_session)) ?s"
  let ?a = "service_process_query example_loads (llm_service example_client) ''Which tables are there?''
          (map tool_descriptor ?tools) None (snd ?t1)"
  let ?atext = "''Let me check.'' @ [newline] @ ''[Tool call: list_tables with args {}]''"
  let ?run = "process_query example_loads example_client ''Which tables are there?'' None ?s"
  let ?rtext = "''Let me check.'' @ [newline] @ ''[Tool call: list_tables with args {}]'' @
          [newline] @ ''[tool results: result of list_tables]''"
  have h1: "session example_client = Some (logged example_session)"
    by (simp add: example_client_def)
  have t1: "fst ?t1 = Inr ?tools" by code_simp
  have h2: "?t1 = (Inr ?tools, snd ?t1)"
    using t1 by (metis prod.collapse)
  have a: "fst ?a = Inr (?atext, 1)" by code_simp
  have h3: "?a = (Inr (?atext, 1), snd ?a)"
    using a by (metis prod.collapse)
  have r: "fst ?run = Inr (?rtext, 1)" by code_simp
  have p: "?run = (Inr (?rtext, 1), snd ?run)"
    using r by (metis prod.collapse)
  have fa: "length (findall ?atext) = 1" by code_simp
  from mediator_output_shape [OF h1 h2 h3] p
  obtain results calls where
    "length results = length (findall ?atext)"
    "?rtext = ?atext @ concat (map (\<lambda>result. [newline] @ ''[tool results: '' @ result @ '']'') results)"
    by blast
  with fa have "\<exists>results. length results = 1 \<and>
     ?rtext = ?atext @ concat (map (\<lambda>result. [newline] @ ''[tool results: '' @ result @ '']'') results)"
    by auto
  with h1 t1 a r show ?thesis by blast
qed

section \<open>A failed turn\<close>

lemma process_query_frame:
  assumes "allocated previous_messages s"
    and "process_query json_loads self query previous_messages s = (r, s')"
  shows "\<forall>a<next_ref s. lists s' a = lists s a"
proof (cases "session self")
  case None
  with assms(2) show ?thesis by (simp add: process_query_def raiseE_def)
next
  case (Some sess)
  obtain r1 s1 where t: "call_out (list_tools sess) s = (r1, s1)"
    by (cases "call_out (list_tools sess) s")
  from call_out_frame [OF t] have f1: "lists s1 = lists s" "next_ref s1 = next_ref s" by simp_all
  show ?thesis
  proof (cases r1)
    case (Inl e)
    with assms(2) Some t f1 show ?thesis
      by (auto simp: process_query_def bindE_def)
  next
    case (Inr response_tools)
    obtain r2 s2 where a: "service_process_query json_loads (llm_service self) query
        (map tool_descriptor response_tools) previous_messages s1 = (r2, s2)"
      by (cases "service_process_query json_loads (llm_service self) query
        (map tool_descriptor response_tools) previous_messages s1")
    from assms(1) f1 have "allocated previous_messages s1"
      by (simp add: allocated_def split: option.splits)
    from service_frame [OF this a] f1
    have f2: "\<forall>a<next_ref s. lists s2 a = lists s a" by simp
    show ?thesis
    proof (cases r2)
      case (Inl e)
      with assms(2) Some t Inr a f2 show ?thesis
        by (auto simp: process_query_def bindE_def Let_def)
    next
      case inr2: (Inr p)
      obtain response_text messages where p: "p = (response_text, messages)" by (cases p)
      obtain r3 s3 where l: "tool_loop json_loads sess (findall response_text) response_text s2 = (r3, s3)"
        by (cases "tool_loop json_loads sess (findall response_text) response_text s2")
      from tool_loop_frame [OF l] f2 have f3: "\<forall>a<next_ref s. lists s3 a = lists s a" by simp
      from assms(2) Some t Inr a inr2 p l have "s' = s3"
        by (cases r3) (auto simp: process_query_def bindE_def returnE_def Let_def)
      with f3 show ?thesis by simp
    qed
  qed
qed

text \<open>
  C9. Let the loop stand at a transcript created before, read a line that is neither
  \<open>quit\<close> nor \<open>refresh\<close>, and let the turn raise. Then the pass through the loop body ends
  with the error printed and with \<open>previous_messages\<close> referring to the same list, the
  content of that list is what it was before the turn, and the loop goes on from there as
  it would from the start of a pass.
\<close>

theorem turn_failure_keeps_transcript:
  assumes "previous_messages < next_ref s"
    and "input term (outside s) = (Inr line, w1)"
    and "lower (strip line) \<noteq> ''quit''"
    and "lower (strip line) \<noteq> ''refresh''"
    and "process_query json_loads client (strip line) (Some previous_messages) (s\<lparr>outside := w1\<rparr>)
           = (Inl e, s2)"
  shows "chat_turn term (process_query json_loads client) previous_messages s =
           (Inr (Some previous_messages), s2\<lparr>outside := print term (Error e) (outside s2)\<rparr>) \<and>
         lists (s2\<lparr>outside := print term (Error e) (outside s2)\<rparr>) previous_messages =
           lists s previous_messages \<and>
         chat_loop_from term (process_query json_loads client) previous_messages s =
           chat_loop_from term (process_query json_loads client) previous_messages
             (s2\<lparr>outside := print term (Error e) (outside s2)\<rparr>)"
proof -
  have turn: "chat_turn term (process_query json_loads client) previous_messages s =
           (Inr (Some previous_messages), s2\<lparr>outside := print term (Error e) (outside s2)\<rparr>)"
    using assms(2-5)
    by (simp add: chat_turn_def tryE_def bindE_def call_out_def Let_def do_print_def returnE_def)
  have "allocated (Some previous_messages) (s\<lparr>outside := w1\<rparr>)"
    using assms(1) by (simp add: allocated_def)
  from process_query_frame [OF this assms(5)] assms(1)
  have keep: "lists s2 previous_messages = lists s previous_messages" by simp
  have loop: "chat_loop_from term (process_query json_loads client) previous_messages s =
           chat_loop_from term (process_query json_loads client) previous_messages
             (s2\<lparr>outside := print term (Error e) (outside s2)\<rparr>)"
    by (subst chat_loop_from.simps) (simp add: turn)
  from turn keep loop show ?thesis by simp
qed

theorem turn_failure_keeps_transcript_witness:
  "0 < next_ref (example_state ()) \<and>
   input (example_terminal ''hello'') (outside (example_state ())) = (Inr ''hello'', ()) \<and>
   lower (strip ''hello'') \<noteq> ''quit'' \<and>
   lower (strip ''hello'') \<noteq> ''refresh'' \<and>
   fst (process_query example_loads failing_client (strip ''hello'') (Some 0) (example_state ())) =
     Inl (External ''overloaded'') \<and>
   fst (chat_turn (example_terminal ''hello'') (process_query example_loads failing_client) 0
          (example_state ())) = Inr (Some 0) \<and>
   lists (snd (chat_turn (example_terminal ''hello'') (process_query example_loads failing_client) 0
          (example_state ()))) 0 = [msg ''user'' ''hi'', msg ''assistant'' ''hello'']"
proof -
  let ?s = "example_state () :: unit state"
  let ?run = "process_query example_loads failing_client (strip ''hello'') (Some 0) ?s"
  have a: "0 < next_ref ?s" by (simp add: example_state_def)
  have i: "input (example_terminal ''hello'') (outside ?s) = (Inr ''hello'', ())"
    by (simp add: example_terminal_def returnE_def)
  have q: "lower (strip ''hello'') \<noteq> ''quit''" by code_simp
  have f: "lower (strip ''hello'') \<noteq> ''refresh''" by code_simp
  have r: "fst ?run = Inl (External ''overloaded'')" by code_simp
  have same: "?s\<lparr>outside := ()\<rparr> = ?s" by simp
  have p: "process_query example_loads failing_client (strip ''hello'') (Some 0) (?s\<lparr>outside := ()\<rparr>) =
             (Inl (External ''overloaded''), snd ?run)"
    using r unfolding same by (metis prod.collapse)
  note t = turn_failure_keeps_transcript [OF a i q f p]
  from t have "fst (chat_turn (example_terminal ''hello'') (process_query example_loads failing_client) 0 ?s)
      = Inr (Some 0)"
    by simp
  moreover from t have "lists (snd (chat_turn (example_terminal ''hello'')
      (process_query example_loads failing_client) 0 ?s)) 0 = [msg ''user'' ''hi'', msg ''assistant'' ''hello'']"
    by (simp add: example_state_def)
  ultimately show ?thesis using a i q f r by blast
qed

section \<open>Startup with an unknown provider\<close>

text \<open>
  C2, as amended. The constructor of the client raises \<open>ValueError\<close> on every provider name
  other than the three; it is a function of the name and the vendors' constructors alone,
  so nothing is connected before. \<open>main\<close> never gives it such a name: a provider argument
  that in lower case is none of the three is ignored, and \<open>main\<close> runs as it does without
  a provider argument. When the constructor raises for the provider that \<open>main\<close> chose,
  \<open>main\<close> ends with that exception in the state it started in.
\<close>

theorem unknown_provider:
  "(provider \<notin> set [''anthropic'', ''openai'', ''gemini''] \<longrightarrow>
      (\<exists>m. MCPClient_init sdk provider = Inl (ValueError m))) \<and>
   (2 < length argv \<and> lower (argv ! 2) \<notin> set [''anthropic'', ''openai'', ''gemini''] \<longrightarrow>
      main json_loads sdk tr term argv s = main json_loads sdk tr term (take 2 argv) s) \<and>
   (2 \<le> length argv \<longrightarrow>
      (\<forall>e. MCPClient_init sdk
              (if 2 < length argv \<and>
                  lower (argv ! 2) \<in> set [''anthropic'', ''openai'', ''gemini'']
               then lower (argv ! 2) else ''anthropic'') = Inl e \<longrightarrow>
           main json_loads sdk tr term argv s = Some (Raised e, s)))"
proof -
  have a: "\<exists>m. MCPClient_init sdk provider = Inl (ValueError m)"
    if "provider \<notin> set [''anthropic'', ''openai'', ''gemini'']"
    using that by (simp add: MCPClient_init_def)
  have b: "main json_loads sdk tr term argv s = main json_loads sdk tr term (take 2 argv) s"
    if "2 < length argv \<and> lower (argv ! 2) \<notin> set [''anthropic'', ''openai'', ''gemini'']"
  proof -
    have n: "take 2 argv ! 1 = argv ! 1" by simp
    have l: "\<not> 2 < length (take 2 argv)" "\<not> length (take 2 argv) < 2"
      "\<not> length argv < 2"
      using that by simp_all
    show ?thesis
      unfolding main_def Let_def
      by (simp only: n l if_False) (use that in simp)
  qed
  have c: "main json_loads sdk tr term argv s = Some (Raised e, s)"
    if "2 \<le> length argv" and "MCPClient_init sdk
              (if 2 < length argv \<and>
                  lower (argv ! 2) \<in> set [''anthropic'', ''openai'', ''gemini'']
               then lower (argv ! 2) else ''anthropic'') = Inl e" for e
    using that unfolding main_def Let_def by auto
  from a b c show ?thesis by blast
qed

theorem unknown_provider_witness:
  "''bogus'' \<notin> set [''anthropic'', ''openai'', ''gemini''] \<and>
   (\<exists>m. MCPClient_init (example_sdk :: string list sdk) ''bogus'' = Inl (ValueError m)) \<and>
   2 < length [''client.py'', ''http://localhost:3000/mcp'', ''bogus''] \<and>
   lower ([''client.py'', ''http://localhost:3000/mcp'', ''bogus''] ! 2) \<notin>
     set [''anthropic'', ''openai'', ''gemini''] \<and>
   main example_loads example_sdk tracing_transport (tracing_terminal ''quit'')
     [''client.py'', ''http://localhost:3000/mcp'', ''bogus''] (example_state []) =
   main example_loads example_sdk tracing_transport (tracing_terminal ''quit'')
     [''client.py'', ''http://localhost:3000/mcp''] (example_state [])"
proof -
  have n: "''bogus'' \<notin> set [''anthropic'', ''openai'', ''gemini'']" by simp
  have l: "2 < length [''client.py'', ''http://localhost:3000/mcp'', ''bogus'']" by simp
  have lw: "lower ([''client.py'', ''http://localhost:3000/mcp'', ''bogus''] ! 2) \<notin>
     set [''anthropic'', ''openai'', ''gemini'']"
    by code_simp
  note t = unknown_provider [of "''bogus''" "example_sdk :: string list sdk"
      "[''client.py'', ''http://localhost:3000/mcp'', ''bogus'']"
      example_loads tracing_transport "tracing_terminal ''quit''" "example_state []"]
  from t n have "\<exists>m. MCPClient_init (example_sdk :: string list sdk) ''bogus'' = Inl (ValueError m)"
    by blast
  moreover from t l lw have "main example_loads example_sdk tracing_transport (tracing_terminal ''quit'')
     [''client.py'', ''http://localhost:3000/mcp'', ''bogus''] (example_state []) =
   main example_loads example_sdk tracing_transport (tracing_terminal ''quit'')
     (take 2 [''client.py'', ''http://localhost:3000/mcp'', ''bogus'']) (example_state [])"
    by blast
  ultimately show ?thesis using n l lw by simp
qed

text \<open>
  C2 as stated fails: started with the provider name \<open>bogus\<close>, \<open>main\<close> does not fail; it
  connects to the server, runs the loop with Anthropic and ends normally.
\<close>

theorem unknown_provider_counterexample:
  "''bogus'' \<notin> set [''anthropic'', ''openai'', ''gemini''] \<and>
   map_option (\<lambda>(out, s). (out, outside s))
     (main example_loads example_sdk tracing_transport (tracing_terminal ''quit'')
        [''client.py'', ''http://localhost:3000/mcp'', ''bogus''] (example_state [])) =
   Some (Finished,
         [''connect to http://localhost:3000/mcp'',
          ''Type your queries or 'quit' to exit.'',
          ''Type 'refresh' to clear conversation history.'',
          ''Using ANTHROPIC as the LLM provider.'',
          ''close'',
          ''MCP Client Closed!''])"
  apply code_simp
  apply (subst chat_loop_from.simps)
  apply code_simp
  done


end
